theory Spec2Isabelle
  imports
    Main
    "HOL-Library.Word"
    "HOL-Library.Char_ord"
    "HOL-Library.List_Lexorder"
    "HOL-Library.Multiset"
begin

unbundle bit_operations_syntax

section \<open>Shared data model\<close>

text \<open>
  Strings are lists of 8-bit characters; text of the source outside ASCII is written through
  its UTF-8 bytes. A JavaScript object is the list of its own string-keyed properties in
  enumeration order (keys pairwise distinct); properties inherited from a prototype are not
  part of the model. JSON numbers are kept as integers.
\<close>

datatype json =
    JNull
  | JBool bool
  | JNum int
  | JStr string
  | JArr "json list"
  | JObj "(string \<times> json) list"

text \<open>
  Errors are values. \<open>HttpError status message\<close> is what \<open>createHttpError\<close> builds
  (\<open>BadRequest\<close> is 400, \<open>NotFound\<close> 404, \<open>UnprocessableEntity\<close> 422,
  \<open>InternalServerError\<close> 500, \<open>ServiceUnavailable\<close> 503); \<open>JsError\<close> is a plain
  \<open>new Error(message)\<close>; \<open>PostgresError\<close> is an error object of the database driver.
\<close>

record PgError =
  pg_message :: string
  pg_code :: string
  constraint_name :: "string option"

datatype error =
    HttpError nat string
  | JsError string
  | PostgresError PgError

definition BadRequest :: "string \<Rightarrow> error" where
  "BadRequest msg = HttpError 400 msg"

definition NotFound :: "string \<Rightarrow> error" where
  "NotFound msg = HttpError 404 msg"

definition UnprocessableEntity :: "string \<Rightarrow> error" where
  "UnprocessableEntity msg = HttpError 422 msg"

definition InternalServerError :: "string \<Rightarrow> error" where
  "InternalServerError msg = HttpError 500 msg"

definition ServiceUnavailable :: "string \<Rightarrow> error" where
  "ServiceUnavailable msg = HttpError 503 msg"

fun statusCode :: "error \<Rightarrow> nat option" where
  "statusCode (HttpError st _) = Some st"
| "statusCode _ = None"

text \<open>\<open>Array.prototype.join\<close> on a list of strings.\<close>

fun join :: "string \<Rightarrow> string list \<Rightarrow> string" where
  "join sep [] = []"
| "join sep [x] = x"
| "join sep (x # y # ys) = x @ sep @ join sep (y # ys)"

text \<open>\<open>String.prototype.startsWith\<close> and \<open>endsWith\<close>.\<close>

definition startsWith :: "string \<Rightarrow> string \<Rightarrow> bool" where
  "startsWith s p = (take (length p) s = p)"

definition endsWith :: "string \<Rightarrow> string \<Rightarrow> bool" where
  "endsWith s p = (length p \<le> length s \<and> drop (length s - length p) s = p)"

abbreviation sq :: char where
  "sq \<equiv> CHR 0x27"

abbreviation nl :: char where
  "nl \<equiv> CHR 0x0A"

subsection \<open>Event identifiers and ledgers\<close>

text \<open>
  An event id is a 64-bit timestamp (\<open>Long\<close>), an unsigned 32-bit checksum and a ledger id.
  The source keeps the ledger id as the eight lowercase hexadecimal digits of a 32-bit
  number (\<open>Number.parseInt(ledgerId, 16)\<close> when written, \<open>toString(16).padStart(8, "0")\<close>
  when read); the model keeps the number.
\<close>

type_synonym byte = "8 word"

record EventID =
  timestamp :: "64 word"
  checksum :: "32 word"
  ledgerId :: "32 word"

record Ledger =
  ledger_id :: "32 word"
  ledger_name :: string
  ledger_description :: string
  genesis :: EventID

text \<open>\<open>longToBuffer\<close>, \<open>writeUInt32BE\<close>: big-endian bytes.\<close>

definition longToBuffer :: "64 word \<Rightarrow> byte list" where
  "longToBuffer w = map (\<lambda>i. ucast (drop_bit (8 * (7 - i)) w)) [0..<8]"

definition writeUInt32BE :: "32 word \<Rightarrow> byte list" where
  "writeUInt32BE w = map (\<lambda>i. ucast (drop_bit (8 * (3 - i)) w)) [0..<4]"

definition eventIdPartsToBuffer :: "64 word \<Rightarrow> 32 word \<Rightarrow> 32 word \<Rightarrow> byte list" where
  "eventIdPartsToBuffer ts cs lid = longToBuffer ts @ writeUInt32BE cs @ writeUInt32BE lid"

definition toEventIdBytes :: "EventID \<Rightarrow> byte list" where
  "toEventIdBytes eventId =
     eventIdPartsToBuffer (timestamp eventId) (checksum eventId) (ledgerId eventId)"

definition hexDigit :: "nat \<Rightarrow> char" where
  "hexDigit n = ''0123456789abcdef'' ! (n mod 16)"

definition byteToHex :: "byte \<Rightarrow> string" where
  "byteToHex b = [hexDigit (unat b div 16), hexDigit (unat b mod 16)]"

definition bytesToHex :: "byte list \<Rightarrow> string" where
  "bytesToHex bs = concat (map byteToHex bs)"

definition toEventIdString :: "64 word \<Rightarrow> 32 word \<Rightarrow> 32 word \<Rightarrow> string" where
  "toEventIdString ts cs lid = bytesToHex (eventIdPartsToBuffer ts cs lid)"

definition eventIdToString :: "EventID \<Rightarrow> string" where
  "eventIdToString eventId =
     toEventIdString (timestamp eventId) (checksum eventId) (ledgerId eventId)"

text \<open>\<open>readUInt32BE\<close> and \<open>bufferToLong\<close> read big-endian bytes back.\<close>

definition readBE :: "byte list \<Rightarrow> 'a::len word" where
  "readBE bs = foldl (\<lambda>acc b. push_bit 8 acc OR ucast b) 0 bs"

definition fromEventIdBytes :: "byte list \<Rightarrow> error + EventID" where
  "fromEventIdBytes buf =
     (if length buf = 16
      then Inr \<lparr> timestamp = readBE (take 8 buf),
                 checksum = readBE (take 4 (drop 8 buf)),
                 ledgerId = readBE (take 4 (drop 12 buf)) \<rparr>
      else Inl (BadRequest ''Invalid 'eventId' buffer value''))"

section \<open>Selectors\<close>

text \<open>
  \<open>Selector\<close> has \<open>after\<close> and \<open>limit\<close>; \<open>FilterSelector\<close> adds the three optional
  clauses. One record with optional fields holds both; \<open>None\<close> is \<open>undefined\<close>.
\<close>

record JsonpathFilter =
  query :: string
  vars :: "(string \<times> json) list option"

record Selector =
  after :: "EventID option"
  limit :: "int option"
  entities :: "(string \<times> string list) list option"
  meta :: "JsonpathFilter option"
  events :: "(string \<times> JsonpathFilter) list option"

definition isFilterSelector :: "Selector \<Rightarrow> bool" where
  "isFilterSelector selector =
     (entities selector \<noteq> None \<or> meta selector \<noteq> None \<or> events selector \<noteq> None)"


subsection \<open>JSON text\<close>

text \<open>
  \<open>JSON.stringify\<close> without indentation: integers in decimal, strings in double quotes
  with the quote, the backslash and the control characters escaped.
\<close>

function showNat :: "nat \<Rightarrow> string" where
  "showNat n = (if n < 10 then [''0123456789'' ! n] else showNat (n div 10) @ [''0123456789'' ! (n mod 10)])"
  by pat_completeness auto
termination
  by (relation "measure id") auto

definition showInt :: "int \<Rightarrow> string" where
  "showInt i = (if i < 0 then ''-'' @ showNat (nat (- i)) else showNat (nat i))"

definition escapeJsonChar :: "char \<Rightarrow> string" where
  "escapeJsonChar c =
     (if c = CHR 0x22 then [CHR 0x5C, CHR 0x22]
      else if c = CHR 0x5C then [CHR 0x5C, CHR 0x5C]
      else if c = CHR 0x08 then [CHR 0x5C, CHR ''b'']
      else if c = CHR 0x09 then [CHR 0x5C, CHR ''t'']
      else if c = CHR 0x0A then [CHR 0x5C, CHR ''n'']
      else if c = CHR 0x0C then [CHR 0x5C, CHR ''f'']
      else if c = CHR 0x0D then [CHR 0x5C, CHR ''r'']
      else if (of_char c :: nat) < 32
      then [CHR 0x5C, CHR ''u'', CHR ''0'', CHR ''0'',
            hexDigit (of_char c div 16), hexDigit (of_char c mod 16)]
      else [c])"

definition quoteJson :: "string \<Rightarrow> string" where
  "quoteJson s = [CHR 0x22] @ concat (map escapeJsonChar s) @ [CHR 0x22]"

primrec JSON_stringify :: "json \<Rightarrow> string" where
  "JSON_stringify JNull = ''null''"
| "JSON_stringify (JBool b) = (if b then ''true'' else ''false'')"
| "JSON_stringify (JNum i) = showInt i"
| "JSON_stringify (JStr s) = quoteJson s"
| "JSON_stringify (JArr xs) = ''['' @ join '','' (map JSON_stringify xs) @ '']''"
| "JSON_stringify (JObj kvs) =
     ''{'' @ join '','' (map (\<lambda>kv. quoteJson (fst kv) @ '':'' @ snd kv)
                          (map (map_prod id JSON_stringify) kvs)) @ ''}''"

subsection \<open>SQL generation\<close>

text \<open>
  \<open>isEmpty\<close> of lodash is true of \<open>undefined\<close> and of an object without keys: a clause is
  generated for \<open>Some\<close> of a list that is not empty.
\<close>

definition escapeSingleQuote :: "string \<Rightarrow> string" where
  "escapeSingleQuote str = concat (map (\<lambda>c. if c = sq then [sq, sq] else [c]) str)"

definition toJsonpathString :: "string \<Rightarrow> string" where
  "toJsonpathString str = escapeSingleQuote (JSON_stringify (JStr str))"

definition toPostgresString :: "string \<Rightarrow> string" where
  "toPostgresString str = [sq] @ escapeSingleQuote str @ [sq]"

definition toPostgresJson :: "json \<Rightarrow> string" where
  "toPostgresJson input = toPostgresString (JSON_stringify input)"

definition toArrayElement :: "string \<Rightarrow> string" where
  "toArrayElement str =
     (let s1 = concat (map (\<lambda>c. if c = CHR 0x5C then [CHR 0x5C, CHR 0x5C] else [c]) str);
          s2 = concat (map (\<lambda>c. if c = CHR 0x22 then [CHR 0x5C, CHR 0x22] else [c]) s1)
      in [CHR 0x22] @ escapeSingleQuote s2 @ [CHR 0x22])"

definition stringArrayToPostgresArray :: "string list \<Rightarrow> string" where
  "stringArrayToPostgresArray strings =
     [sq] @ ''{'' @ join '','' (map toArrayElement strings) @ ''}'' @ [sq]"

fun singleOrAny :: "string \<Rightarrow> string list \<Rightarrow> error + string" where
  "singleOrAny column [] = Inl (JsError (''Empty values for '' @ column))"
| "singleOrAny column [v] = Inr (column @ '' = '' @ toPostgresString v)"
| "singleOrAny column vs = Inr (column @ '' = ANY('' @ stringArrayToPostgresArray vs @ '')'')"

definition jsonpathToSql :: "string \<Rightarrow> JsonpathFilter \<Rightarrow> string" where
  "jsonpathToSql field jsonpath =
     (let qStr = toPostgresString (query jsonpath)
      in case vars jsonpath of
           Some vs \<Rightarrow>
             ''jsonb_path_exists('' @ field @ '', '' @ qStr @ '', ''
               @ toPostgresJson (JObj vs) @ '')''
         | None \<Rightarrow> field @ '' @? '' @ qStr)"

definition generateEntitiesQuery :: "(string \<times> string list) list \<Rightarrow> string" where
  "generateEntitiesQuery ents =
     (let entityQueries =
            map (\<lambda>(name, keys).
                   ''entities @? '' @ [sq] @ ''$.'' @ toJsonpathString name @ '' ? (''
                     @ join '' || '' (map (\<lambda>key. ''@=='' @ toJsonpathString key) keys)
                     @ '')'' @ [sq]) ents
      in ''('' @ join (nl # ''OR '') entityQueries @ '')'')"

definition generateEventsQuery :: "(string \<times> JsonpathFilter) list \<Rightarrow> error + string" where
  "generateEventsQuery dataFilter =
     (let justEvents = map fst (filter (\<lambda>(event, f). query f = ''$'') dataFilter);
          queries = map (\<lambda>(event, f).
                       ''(event = '' @ toPostgresString event @ '' AND ''
                         @ jsonpathToSql ''data'' f @ '')'')
                      (filter (\<lambda>(event, f). query f \<noteq> ''$'') dataFilter)
      in if justEvents \<noteq> []
         then (case singleOrAny ''event'' justEvents of
                 Inl err \<Rightarrow> Inl err
               | Inr q \<Rightarrow> Inr (join (nl # ''OR '') (queries @ [q])))
         else Inr (join (nl # ''OR '') queries))"

definition filterSelectorToSql :: "Selector \<Rightarrow> error + string" where
  "filterSelectorToSql selector =
     (let q1 = (case entities selector of
                  Some (e # es) \<Rightarrow> [generateEntitiesQuery (e # es)]
                | _ \<Rightarrow> []);
          q2 = (case meta selector of
                  Some m \<Rightarrow> [jsonpathToSql ''meta'' m]
                | None \<Rightarrow> [])
      in case events selector of
           Some (d # ds) \<Rightarrow>
             (case generateEventsQuery (d # ds) of
                Inl err \<Rightarrow> Inl err
              | Inr q3 \<Rightarrow> Inr (''('' @ join (nl # ''AND '') (q1 @ q2 @ [q3]) @ '')''))
         | _ \<Rightarrow> Inr (''('' @ join (nl # ''AND '') (q1 @ q2) @ '')''))"

definition unknownSelectorToSql :: "Selector \<Rightarrow> error + string" where
  "unknownSelectorToSql selector =
     (if isFilterSelector selector then filterSelectorToSql selector else Inr '''')"

section \<open>Selector codec\<close>

text \<open>
  \<open>sortObject\<close> builds a new object from the keys in sorted order with \<open>sortUnknown\<close> of
  each value, and freezes it; \<open>sortUnknown\<close> maps over arrays and sorts objects. Both hand
  a frozen value back as it is. In this repository a value is frozen by these two
  functions, which is the sorted object again, and by \<open>jsonpathToCompressedJsonpath\<close>,
  whose object has its keys \<open>q\<close>, \<open>v\<close> in order and its \<open>v\<close> sorted. Keys are compared as
  lists of characters, a prefix before its extensions.
\<close>

definition sortKeys :: "(string \<times> 'a) list \<Rightarrow> (string \<times> 'a) list" where
  "sortKeys kvs = sort_key fst kvs"

primrec sortUnknown :: "json \<Rightarrow> json" where
  "sortUnknown JNull = JNull"
| "sortUnknown (JBool b) = JBool b"
| "sortUnknown (JNum n) = JNum n"
| "sortUnknown (JStr s) = JStr s"
| "sortUnknown (JArr xs) = JArr (map sortUnknown xs)"
| "sortUnknown (JObj kvs) = JObj (sortKeys (map (map_prod id sortUnknown) kvs))"

text \<open>\<open>sortObject\<close> at the types it is used at.\<close>

definition sortObject :: "(string \<times> json) list \<Rightarrow> (string \<times> json) list" where
  "sortObject inObject = sortKeys (map (map_prod id sortUnknown) inObject)"

definition sortEntities :: "(string \<times> string list) list \<Rightarrow> (string \<times> string list) list" where
  "sortEntities inObject = sortKeys inObject"

text \<open>
  The compressed forms. A field left out by \<open>pickBy\<close> is \<open>None\<close>. \<open>includeInCompressed\<close>
  keeps an integer when it is positive and any other value when lodash's \<open>isEmpty\<close> is
  false of it: an object with a key, a string or a buffer with an element.
\<close>

record CompressedJsonpath =
  cq :: "string option"
  cv :: "(string \<times> json) list option"

record CompressedForm =
  ce :: "(string \<times> string list) list option"
  cm :: "CompressedJsonpath option"
  cd :: "(string \<times> CompressedJsonpath) list option"
  ca :: "byte list option"
  cl :: "int option"

definition pickNonEmpty :: "'a list option \<Rightarrow> 'a list option" where
  "pickNonEmpty x = (case x of Some (y # ys) \<Rightarrow> Some (y # ys) | _ \<Rightarrow> None)"

definition pickLimit :: "int option \<Rightarrow> int option" where
  "pickLimit x = (case x of Some n \<Rightarrow> if n > 0 then Some n else None | None \<Rightarrow> None)"

definition isEmptyJsonpath :: "CompressedJsonpath \<Rightarrow> bool" where
  "isEmptyJsonpath c = (cq c = None \<and> cv c = None)"

definition pickJsonpath :: "CompressedJsonpath option \<Rightarrow> CompressedJsonpath option" where
  "pickJsonpath x = (case x of Some c \<Rightarrow> if isEmptyJsonpath c then None else Some c | None \<Rightarrow> None)"

definition jsonpathToCompressedJsonpath :: "JsonpathFilter \<Rightarrow> CompressedJsonpath" where
  "jsonpathToCompressedJsonpath jsonpath =
     (let v = map_option sortObject (vars jsonpath)
      in \<lparr> cq = pickNonEmpty (Some (query jsonpath)), cv = pickNonEmpty v \<rparr>)"

text \<open>
  \<open>compressedJsonpathToJsonpath\<close> runs after \<open>verifyCompressed\<close>, which has refused a
  compressed JSONPath without its query.
\<close>

definition compressedJsonpathToJsonpath :: "CompressedJsonpath \<Rightarrow> JsonpathFilter" where
  "compressedJsonpathToJsonpath compressed =
     \<lparr> query = (case cq compressed of Some s \<Rightarrow> s | None \<Rightarrow> []), vars = cv compressed \<rparr>"

definition eventsToCompressedData ::
  "(string \<times> JsonpathFilter) list \<Rightarrow> (string \<times> CompressedJsonpath) list"
where
  "eventsToCompressedData evs = sortKeys (map (map_prod id jsonpathToCompressedJsonpath) evs)"

definition compressedDataToEvents ::
  "(string \<times> CompressedJsonpath) list \<Rightarrow> (string \<times> JsonpathFilter) list"
where
  "compressedDataToEvents compressed = map (map_prod id compressedJsonpathToJsonpath) compressed"

text \<open>
  \<open>toURIPart\<close> and \<open>fromURIPart\<close> are the pack and unpack of msgpackr followed by base64url,
  a codec that gives back the value it was given. A token is represented by the compressed
  form it carries, and unpacking it does not fail.
\<close>

type_synonym URIPart = CompressedForm

definition toURIPart :: "CompressedForm \<Rightarrow> URIPart" where
  "toURIPart params = params"

definition fromURIPart :: "URIPart \<Rightarrow> error + CompressedForm" where
  "fromURIPart param = Inr param"

definition encodeFilterSelector :: "Selector \<Rightarrow> URIPart" where
  "encodeFilterSelector selector =
     (let e = map_option sortEntities (entities selector);
          m = map_option jsonpathToCompressedJsonpath (meta selector);
          d = map_option eventsToCompressedData (events selector);
          a = map_option toEventIdBytes (after selector)
      in toURIPart \<lparr> ce = pickNonEmpty e, cm = pickJsonpath m, cd = pickNonEmpty d,
                      ca = pickNonEmpty a, cl = pickLimit (limit selector) \<rparr>)"

definition encodeSelector :: "Selector \<Rightarrow> URIPart" where
  "encodeSelector selector =
     (let a = map_option toEventIdBytes (after selector)
      in toURIPart \<lparr> ce = None, cm = None, cd = None,
                      ca = pickNonEmpty a, cl = pickLimit (limit selector) \<rparr>)"

definition encodeUnknownSelector :: "Selector \<Rightarrow> URIPart" where
  "encodeUnknownSelector selector =
     (if isFilterSelector selector then encodeFilterSelector selector
      else encodeSelector selector)"

text \<open>
  The specs \<open>verify\<close> checks a compressed form against: an entity's keys are a list of at
  least one string, each with at least one character; a compressed JSONPath has its
  query \<open>q\<close>; a limit is above zero. The text of the error is the library's.
\<close>

definition limitSpec :: "int option \<Rightarrow> bool" where
  "limitSpec x = (case x of Some n \<Rightarrow> n > 0 | None \<Rightarrow> True)"

definition nonEmptyStringArraySpec :: "string list \<Rightarrow> bool" where
  "nonEmptyStringArraySpec keys = (keys \<noteq> [] \<and> list_all (\<lambda>k. k \<noteq> []) keys)"

definition compressedJsonpathSpec :: "CompressedJsonpath \<Rightarrow> bool" where
  "compressedJsonpathSpec c = (cq c \<noteq> None)"

definition compressedSelectorSpec :: "CompressedForm \<Rightarrow> bool" where
  "compressedSelectorSpec c = limitSpec (cl c)"

definition compressedFilterSpec :: "CompressedForm \<Rightarrow> bool" where
  "compressedFilterSpec c =
     ((case ce c of Some es \<Rightarrow> list_all (\<lambda>kv. nonEmptyStringArraySpec (snd kv)) es
                  | None \<Rightarrow> True)
      \<and> (case cm c of Some j \<Rightarrow> compressedJsonpathSpec j | None \<Rightarrow> True)
      \<and> (case cd c of Some ds \<Rightarrow> list_all (\<lambda>kv. compressedJsonpathSpec (snd kv)) ds
                     | None \<Rightarrow> True)
      \<and> limitSpec (cl c))"

definition verifyCompressed :: "(CompressedForm \<Rightarrow> bool) \<Rightarrow> CompressedForm \<Rightarrow> error + unit" where
  "verifyCompressed spec compressed =
     (if spec compressed then Inr () else Inl (BadRequest ''Validation failed''))"

definition decodeAfter :: "byte list option \<Rightarrow> error + EventID option" where
  "decodeAfter x =
     (case x of
        None \<Rightarrow> Inr None
      | Some buf \<Rightarrow> (case fromEventIdBytes buf of Inl err \<Rightarrow> Inl err | Inr i \<Rightarrow> Inr (Some i)))"

definition compressedSelectorToSelector :: "CompressedForm \<Rightarrow> error + Selector" where
  "compressedSelectorToSelector compressed =
     (case verifyCompressed compressedSelectorSpec compressed of
        Inl err \<Rightarrow> Inl err
      | Inr _ \<Rightarrow>
          (case decodeAfter (ca compressed) of
             Inl err \<Rightarrow> Inl err
           | Inr afterId \<Rightarrow>
               Inr \<lparr> after = afterId, limit = cl compressed,
                     entities = None, meta = None, events = None \<rparr>))"

definition compressedFilterToSelector :: "CompressedForm \<Rightarrow> error + Selector" where
  "compressedFilterToSelector compressed =
     (case verifyCompressed compressedFilterSpec compressed of
        Inl err \<Rightarrow> Inl err
      | Inr _ \<Rightarrow>
          (case decodeAfter (ca compressed) of
             Inl err \<Rightarrow> Inl err
           | Inr afterId \<Rightarrow>
               Inr \<lparr> after = afterId, limit = cl compressed,
                     entities = ce compressed,
                     meta = map_option compressedJsonpathToJsonpath (cm compressed),
                     events = map_option compressedDataToEvents (cd compressed) \<rparr>))"

definition decodeSelector :: "URIPart \<Rightarrow> error + Selector" where
  "decodeSelector encodedSelector =
     (case fromURIPart encodedSelector of
        Inl err \<Rightarrow> Inl err
      | Inr compressed \<Rightarrow>
          if ce compressed \<noteq> None \<or> cm compressed \<noteq> None \<or> cd compressed \<noteq> None
          then compressedFilterToSelector compressed
          else compressedSelectorToSelector compressed)"

section \<open>Registry\<close>

record EventType =
  et_event :: string
  et_entities :: "string list"

text \<open>
  A row of the registry's marker stream: \<open>action\<close> is the persisted event's name and
  \<open>data_event\<close>, \<open>data_entities\<close> are the fields \<open>event\<close> and \<open>entities\<close> of its data.
\<close>

record MarkerEvent =
  action :: string
  data_event :: string
  data_entities :: "string list"

definition EVENT_REGISTERED :: string where
  "EVENT_REGISTERED =
     [CHR 0xF0, CHR 0x9F, CHR 0x9F, CHR 0xA7, CHR 0xF0, CHR 0x92, CHR 0x8D, CHR 0xAA]"


text \<open>
  \<open>Map.prototype.set\<close> keeps the position of a key that is already present and appends a
  new key; \<open>Map.prototype.delete\<close> removes the key.
\<close>

fun map_set :: "'k \<Rightarrow> 'v \<Rightarrow> ('k \<times> 'v) list \<Rightarrow> ('k \<times> 'v) list" where
  "map_set k v [] = [(k, v)]"
| "map_set k v ((k', v') # m) = (if k' = k then (k, v) # m else (k', v') # map_set k v m)"

definition map_delete :: "'k \<Rightarrow> ('k \<times> 'v) list \<Rightarrow> ('k \<times> 'v) list" where
  "map_delete k m = filter (\<lambda>kv. fst kv \<noteq> k) m"




definition findEvent :: "EventType list \<Rightarrow> string \<Rightarrow> EventType option" where
  "findEvent allEvents event = find (\<lambda>e. et_event e = event) allEvents"


section \<open>Event store\<close>

record AppendEvent =
  ae_event :: string
  ae_entities :: "(string \<times> string list) list"
  ae_meta :: "json option"
  ae_data :: "json option"
  idempotencyKey :: "string option"

datatype Result = SUCCESS | RACE | FAIL | ERROR

record AppendedEvent =
  eventId :: string
  ok_idempotencyKey :: string

record AppendResult =
  status :: Result
  ok :: "AppendedEvent option"
  message :: "string option"
  race_error :: "string option"

text \<open>
  The values handed to \<open>evently.append_event\<close>, in the order of its parameters.
  \<open>stringToBytes\<close> is the UTF-8 encoder: the selector's bytes are its string.
\<close>

record AppendEventPostgres =
  previousEventId :: string
  ap_event :: string
  ap_entities :: "(string \<times> string list) list"
  ap_meta :: json
  ap_data :: json
  appendKey :: string
  ap_selector :: string

text \<open>A row returned by \<open>evently.find_with_append_key\<close>.\<close>

record StoredEvent =
  storedTimestamp :: "64 word"
  storedChecksum :: "64 word"
  storedEvent :: string
  storedEntities :: json
  storedMeta :: json
  storedData :: json

text \<open>
  The database is outside the repository: its two procedures are parameters, functions on a
  database state \<open>'db\<close> of any type. \<open>append_event\<close> answers with the new event id or raises;
  \<open>find_with_append_key\<close> answers with the rows found or raises.
\<close>

record 'db Sql =
  append_event :: "AppendEventPostgres \<Rightarrow> 'db \<Rightarrow> (error + string) \<times> 'db"
  find_with_append_key :: "32 word \<Rightarrow> string \<Rightarrow> 'db \<Rightarrow> (error + StoredEvent list) \<times> 'db"

text \<open>The two identifiers \<open>createId()\<close> may be asked for during one append.\<close>

record Cuids =
  newAppendKey :: string
  newRef :: string

definition REGISTER_EVENT :: string where
  "REGISTER_EVENT = ''/registry/register-event''"

definition validateEvent :: "EventType list \<Rightarrow> AppendEvent \<Rightarrow> error + unit" where
  "validateEvent registry eventIn =
     (case findEvent registry (ae_event eventIn) of
        None \<Rightarrow>
          Inl (UnprocessableEntity (''event '' @ [sq] @ ae_event eventIn @ [sq]
                 @ '' not found in this ledger. Visit '' @ REGISTER_EVENT
                 @ '' to register new events.''))
      | Some eventDef \<Rightarrow>
          (let errors = map (\<lambda>entity. ''entity '' @ [sq] @ entity @ [sq]
                               @ '' is not registered to be part of this event.'')
                          (filter (\<lambda>entity. entity \<notin> set (et_entities eventDef))
                             (map fst (ae_entities eventIn)))
           in if errors \<noteq> [] then Inl (UnprocessableEntity (join [nl] errors)) else Inr ()))"

text \<open>
  \<open>isEqual\<close> of lodash: deep equality; objects are compared by their key sets and the
  values under each key, whatever the order of the keys.
\<close>

function (sequential) isEqual :: "json \<Rightarrow> json \<Rightarrow> bool" where
  "isEqual (JObj a) (JObj b) =
     (length a = length b \<and>
      list_all (\<lambda>kv. case map_of b (fst kv) of None \<Rightarrow> False | Some w \<Rightarrow> isEqual (snd kv) w) a)"
| "isEqual (JArr a) (JArr b) =
     (length a = length b \<and> list_all (\<lambda>xy. isEqual (fst xy) (snd xy)) (zip a b))"
| "isEqual x y = (x = y)"
  by pat_completeness auto
termination
proof (relation "measure (\<lambda>(x, y). size x)")
  fix a b :: "(string \<times> json) list" and kv w
  assume "kv \<in> set a"
  then have "size (snd kv) \<le> size_list (size_prod (\<lambda>x. 0) size) a"
    by (intro size_list_estimation'[of kv]) (auto simp: size_prod_simp)
  then show "((snd kv, w), (JObj a, JObj b)) \<in> measure (\<lambda>(x, y). size x)"
    by simp
next
  fix a b :: "json list" and xy
  assume "xy \<in> set (zip a b)"
  then have "fst xy \<in> set a"
    by (metis prod.collapse set_zip_leftD)
  then have "size (fst xy) \<le> size_list size a"
    by (intro size_list_estimation'[of "fst xy"]) auto
  then show "((fst xy, snd xy), (JArr a, JArr b)) \<in> measure (\<lambda>(x, y). size x)"
    by (simp add: case_prod_beta)
qed simp

text \<open>
  \<open>isEqual(stored, value)\<close> where \<open>value\<close> may be \<open>undefined\<close>: a column read from the
  database is never \<open>undefined\<close>, so the comparison with \<open>undefined\<close> is false.
\<close>

definition isEqualMaybe :: "json \<Rightarrow> json option \<Rightarrow> bool" where
  "isEqualMaybe stored v = (case v of None \<Rightarrow> False | Some w \<Rightarrow> isEqual stored w)"

definition entitiesJson :: "(string \<times> string list) list \<Rightarrow> json" where
  "entitiesJson ents = JObj (map (\<lambda>(name, keys). (name, JArr (map JStr keys))) ents)"

text \<open>
  \<open>maybeIdempotent\<close>: look the key up; with a stored event, answer SUCCESS with its id when
  the four fields are equal and raise 422 otherwise; with none, hand back \<open>appendResult\<close>.
  \<open>checksum.toUnsigned().toInt()\<close> keeps the low 32 bits.
\<close>

definition maybeIdempotent ::
  "'db Sql \<Rightarrow> Ledger \<Rightarrow> AppendEvent \<Rightarrow> AppendResult \<Rightarrow> 'db \<Rightarrow> (error + AppendResult) \<times> 'db"
where
  "maybeIdempotent sql ledger newEvent appendResult db =
     (let key = (case idempotencyKey newEvent of None \<Rightarrow> ''NO_IDEMPOTENCY_KEY'' | Some k \<Rightarrow> k);
          ledgerId = ledger_id ledger
      in case find_with_append_key sql ledgerId key db of
           (Inl err, db') \<Rightarrow> (Inl err, db')
         | (Inr [], db') \<Rightarrow> (Inr appendResult, db')
         | (Inr (stored # _), db') \<Rightarrow>
             (if ae_event newEvent = storedEvent stored
                 \<and> isEqual (storedEntities stored) (entitiesJson (ae_entities newEvent))
                 \<and> isEqualMaybe (storedMeta stored) (ae_meta newEvent)
                 \<and> isEqualMaybe (storedData stored) (ae_data newEvent)
              then (Inr \<lparr> status = SUCCESS,
                          ok = Some \<lparr> eventId = toEventIdString (storedTimestamp stored)
                                                   (ucast (storedChecksum stored)) ledgerId,
                                      ok_idempotencyKey = key \<rparr>,
                          message = None, race_error = None \<rparr>, db')
              else (Inl (UnprocessableEntity
                      (''Event does not match the event originally appended with idempotencyKey: ''
                         @ [sq] @ key @ [sq])), db')))"

definition raceResult :: AppendResult where
  "raceResult = \<lparr> status = RACE, ok = None, message = None,
      race_error = Some ''Race Condition! Entity has newer events. Please GET /SELECTOR for the most recent events.'' \<rparr>"

definition errorResult :: "string \<Rightarrow> AppendResult" where
  "errorResult msg = \<lparr> status = ERROR, ok = None, message = Some msg, race_error = None \<rparr>"

definition unhandledStoreError :: "Cuids \<Rightarrow> error" where
  "unhandledStoreError ids =
     InternalServerError (''Something went wrong on our side. Please contact us with ref#''
        @ newRef ids @ '' for investigation.'')"

text \<open>
  \<open>tryAppendResult\<close>: the one call of \<open>evently.append_event\<close> and the mapping of what the
  database signals. \<open>appendKey\<close> is tested for truthiness: the empty string is false.
\<close>

definition tryAppendResult ::
  "'db Sql \<Rightarrow> Cuids \<Rightarrow> Ledger \<Rightarrow> AppendEvent \<Rightarrow> AppendEventPostgres \<Rightarrow> 'db
     \<Rightarrow> (error + AppendResult) \<times> 'db"
where
  "tryAppendResult sql ids ledger appendEvent appendValues db =
     (case append_event sql appendValues db of
        (Inr newId, db') \<Rightarrow>
          (Inr \<lparr> status = SUCCESS,
                 ok = Some \<lparr> eventId = newId, ok_idempotencyKey = appendKey appendValues \<rparr>,
                 message = None, race_error = None \<rparr>, db')
      | (Inl (PostgresError err), db') \<Rightarrow>
          (if startsWith (pg_message err) ''RACE CONDITION''
           then (if appendKey appendValues \<noteq> []
                 then maybeIdempotent sql ledger appendEvent raceResult db'
                 else (Inr raceResult, db'))
           else if appendKey appendValues \<noteq> []
                   \<and> (case constraint_name err of None \<Rightarrow> False
                       | Some c \<Rightarrow> endsWith c ''_append_key_key'')
           then maybeIdempotent sql ledger appendEvent
                  (errorResult ''idempotencyKey reused for a different event. Please generate a new idempotencyKey and repeat the append request.'') db'
           else if pg_message err = ''previous can only be genesis for first event''
           then (Inr (errorResult ''Ledger already has events, must send most recent selector event id as 'after' in append body.''), db')
           else if pg_message err = ''previous_id must exist in the ledger''
           then (Inr (errorResult ''Previous Event ID is not found in ledger.''), db')
           else if startsWith (pg_message err) ''AFTER not found''
           then (Inr (errorResult ([sq] @ ''after'' @ [sq] @ '' value not found in ledger.'')), db')
           else (Inl (unhandledStoreError ids), db'))
      | (Inl _, db') \<Rightarrow> (Inl (unhandledStoreError ids), db'))"

text \<open>
  \<open>appendEvent\<close>: validation against the registry first, then the values for the database.
  \<open>registry\<close> is what \<open>registry.getEvent\<close> reads, the ledger's registered event types.
\<close>

definition appendEvent ::
  "'db Sql \<Rightarrow> Cuids \<Rightarrow> EventType list \<Rightarrow> Ledger \<Rightarrow> AppendEvent \<Rightarrow> string \<Rightarrow> EventID option
     \<Rightarrow> 'db \<Rightarrow> (error + AppendResult) \<times> 'db"
where
  "appendEvent sql ids registry ledger event selectorSql afterId db =
     (case validateEvent registry event of
        Inl err \<Rightarrow> (Inl err, db)
      | Inr _ \<Rightarrow>
          (let afterTimestamp = (case afterId of None \<Rightarrow> 0 | Some a \<Rightarrow> timestamp a);
               afterChecksum = (case afterId of None \<Rightarrow> 0 | Some a \<Rightarrow> checksum a);
               vals = \<lparr> previousEventId =
                          toEventIdString afterTimestamp afterChecksum (ledger_id ledger),
                        ap_event = ae_event event,
                        ap_entities = ae_entities event,
                        ap_meta = (case ae_meta event of None \<Rightarrow> JNull | Some m \<Rightarrow> m),
                        ap_data = (case ae_data event of None \<Rightarrow> JNull | Some d \<Rightarrow> d),
                        appendKey = (case idempotencyKey event of
                                       None \<Rightarrow> newAppendKey ids
                                     | Some k \<Rightarrow> if k = [] then newAppendKey ids else k),
                        ap_selector = selectorSql \<rparr>
           in tryAppendResult sql ids ledger event vals db))"

definition appendFact ::
  "'db Sql \<Rightarrow> Cuids \<Rightarrow> EventType list \<Rightarrow> Ledger \<Rightarrow> AppendEvent \<Rightarrow> 'db
     \<Rightarrow> (error + AppendResult) \<times> 'db"
where
  "appendFact sql ids registry ledger event db =
     appendEvent sql ids registry ledger event ''false'' None db"

definition appendWithSelector ::
  "'db Sql \<Rightarrow> Cuids \<Rightarrow> EventType list \<Rightarrow> Ledger \<Rightarrow> AppendEvent \<Rightarrow> Selector \<Rightarrow> 'db
     \<Rightarrow> (error + AppendResult) \<times> 'db"
where
  "appendWithSelector sql ids registry ledger event selector db =
     (case unknownSelectorToSql selector of
        Inl err \<Rightarrow> (Inl err, db)
      | Inr selectorQuery \<Rightarrow>
          appendEvent sql ids registry ledger event selectorQuery (after selector) db)"

section \<open>Event source\<close>

definition EVENT_BATCH_SIZE :: int where
  "EVENT_BATCH_SIZE = 100"

record EventRow =
  row_timestamp :: "64 word"
  row_checksum :: "64 word"
  row_event :: string
  row_entities :: "(string \<times> string list) list"
  row_meta :: json
  row_data :: json

text \<open>
  A persisted event; \<open>pe_timestamp\<close> stands for the ISO-8601 text of the instant, kept as
  the instant's microseconds.
\<close>

record PersistedEvent =
  pe_event :: string
  pe_eventId :: string
  pe_timestamp :: "64 word"
  pe_entities :: "(string \<times> string list) list"
  pe_meta :: json
  pe_data :: json

text \<open>
  The three procedures of the database the event source calls, as parameters on a database
  state: \<open>run_selector ledger afterTs afterChk limit predicate batchSize\<close>,
  \<open>fetch_selected ledger afterTs limit predicate\<close> and
  \<open>fetch_event_id ledger predicate afterTs limit\<close> (\<open>None\<close> is SQL \<open>null\<close>).
\<close>

record 'db SourceSql =
  run_selector ::
    "32 word \<Rightarrow> 64 word \<Rightarrow> 32 word \<Rightarrow> int \<Rightarrow> string \<Rightarrow> int \<Rightarrow> 'db
       \<Rightarrow> (error + EventRow list) \<times> 'db"
  fetch_selected ::
    "32 word \<Rightarrow> 64 word \<Rightarrow> int \<Rightarrow> string \<Rightarrow> 'db \<Rightarrow> (error + EventRow list) \<times> 'db"
  fetch_event_id ::
    "32 word \<Rightarrow> string \<Rightarrow> 64 word option \<Rightarrow> int option \<Rightarrow> 'db
       \<Rightarrow> (error + EventRow list) \<times> 'db"

text \<open>
  The drained event stream: the events it yielded and, when a fetch raised, the error that
  ended it.
\<close>

record 'e Stream =
  yielded :: "'e list"
  failure :: "error option"

record SelectorResult =
  position :: EventID
  eventStream :: "PersistedEvent Stream"

definition validateAfterInLedger :: "EventID option \<Rightarrow> Ledger \<Rightarrow> error + unit" where
  "validateAfterInLedger afterId ledger =
     (case afterId of
        Some a \<Rightarrow>
          if ledger_id ledger \<noteq> ledgerId a
          then Inl (BadRequest ''Ledger ID in 'after' does not match the current ledger. Are you using the correct authorization token for this request?'')
          else Inr ()
      | None \<Rightarrow> Inr ())"

definition eventRowToPersistedEvent :: "32 word \<Rightarrow> EventRow \<Rightarrow> PersistedEvent" where
  "eventRowToPersistedEvent lid row =
     \<lparr> pe_event = row_event row,
       pe_eventId = toEventIdString (row_timestamp row) (ucast (row_checksum row)) lid,
       pe_timestamp = row_timestamp row,
       pe_entities = row_entities row,
       pe_meta = row_meta row,
       pe_data = row_data row \<rparr>"

text \<open>
  \<open>totalLimit\<close> of \<open>selectEvents\<close> is a number that may be \<open>Number.POSITIVE_INFINITY\<close>.
\<close>

datatype jsnumber = Finite int | PositiveInfinity

fun isPositive :: "jsnumber \<Rightarrow> bool" where
  "isPositive (Finite n) = (n > 0)"
| "isPositive PositiveInfinity = True"

fun decrease :: "jsnumber \<Rightarrow> int \<Rightarrow> jsnumber" where
  "decrease (Finite n) k = Finite (n - k)"
| "decrease PositiveInfinity k = PositiveInfinity"

fun mathMin :: "jsnumber \<Rightarrow> int \<Rightarrow> int" where
  "mathMin (Finite n) k = min n k"
| "mathMin PositiveInfinity k = k"

definition fetchRows ::
  "'db SourceSql \<Rightarrow> 32 word \<Rightarrow> 64 word \<Rightarrow> string \<Rightarrow> jsnumber \<Rightarrow> 'db
     \<Rightarrow> (error + EventRow list) \<times> 'db"
where
  "fetchRows sql lid afterTs selectorBytes totalLimit db =
     fetch_selected sql lid afterTs (mathMin totalLimit EVENT_BATCH_SIZE) selectorBytes db"

text \<open>
  The \<open>while\<close> loop of \<open>selectEvents\<close>, run until the generator is done. The loop need not
  end (an unbounded limit against a database that always has more rows): \<open>None\<close> is the
  run that never ends.
\<close>

partial_function (option) selectLoop ::
  "'db SourceSql \<Rightarrow> 32 word \<Rightarrow> string \<Rightarrow> jsnumber \<Rightarrow> 64 word \<Rightarrow> 'db
     \<Rightarrow> (EventRow Stream \<times> 'db) option"
where
  "selectLoop sql lid selectorBytes totalLimit afterTs db =
     (if isPositive totalLimit
      then (case fetchRows sql lid afterTs selectorBytes totalLimit db of
              (Inl err, db') \<Rightarrow> Some (\<lparr> yielded = [], failure = Some err \<rparr>, db')
            | (Inr rows, db') \<Rightarrow>
                if rows \<noteq> []
                then Option.bind
                       (selectLoop sql lid selectorBytes (decrease totalLimit (int (length rows)))
                          (row_timestamp (last rows)) db')
                       (\<lambda>(rest, db''). Some (rest \<lparr> yielded := rows @ yielded rest \<rparr>, db''))
                else Some (\<lparr> yielded = [], failure = None \<rparr>, db'))
      else Some (\<lparr> yielded = [], failure = None \<rparr>, db))"

definition selectEvents ::
  "'db SourceSql \<Rightarrow> EventID \<Rightarrow> int \<Rightarrow> string \<Rightarrow> 'db \<Rightarrow> (EventRow Stream \<times> 'db) option"
where
  "selectEvents sql start totalLimit selectorBytes db =
     selectLoop sql (ledgerId start) selectorBytes
       (if totalLimit = 0 then PositiveInfinity else Finite totalLimit) (timestamp start) db"

definition continueSelector ::
  "'db SourceSql \<Rightarrow> string \<Rightarrow> EventID \<Rightarrow> int \<Rightarrow> EventRow list \<Rightarrow> 'db
     \<Rightarrow> (SelectorResult \<times> 'db) option"
where
  "continueSelector sql selectorBytes pos lim firstBatch db =
     (let lid = ledgerId pos;
          rowToEvent = eventRowToPersistedEvent lid;
          allEventsPresent = (int (length firstBatch) < EVENT_BATCH_SIZE)
      in if allEventsPresent
         then Some (\<lparr> position = pos,
                      eventStream = \<lparr> yielded = map rowToEvent firstBatch, failure = None \<rparr> \<rparr>, db)
         else (let startPosition = \<lparr> timestamp = row_timestamp (last firstBatch),
                                      checksum = ucast (row_checksum (last firstBatch)),
                                      ledgerId = lid \<rparr>
               in Option.bind (selectEvents sql startPosition lim selectorBytes db)
                    (\<lambda>(batches, db').
                       Some (\<lparr> position = pos,
                               eventStream = \<lparr> yielded = map rowToEvent (firstBatch @ yielded batches),
                                               failure = failure batches \<rparr> \<rparr>, db'))))"

definition tryExecuteSelector ::
  "'db SourceSql \<Rightarrow> Ledger \<Rightarrow> int \<Rightarrow> string \<Rightarrow> EventID option \<Rightarrow> 'db
     \<Rightarrow> (error + EventID \<times> EventRow list) \<times> 'db"
where
  "tryExecuteSelector sql ledger lim selectorBytes afterId db =
     (case run_selector sql (ledger_id ledger)
             (case afterId of None \<Rightarrow> 0 | Some a \<Rightarrow> timestamp a)
             (case afterId of None \<Rightarrow> 0 | Some a \<Rightarrow> checksum a)
             lim selectorBytes EVENT_BATCH_SIZE db of
        (Inr (idRow # rows), db') \<Rightarrow>
          (Inr (\<lparr> timestamp = row_timestamp idRow, checksum = ucast (row_checksum idRow),
                   ledgerId = ledger_id ledger \<rparr>, rows), db')
      | (Inr [], db') \<Rightarrow>
          (Inr (case afterId of None \<Rightarrow> genesis ledger | Some a \<Rightarrow> a, []), db')
      | (Inl (PostgresError err), db') \<Rightarrow>
          (if pg_code err = ''42601'' then (Inl (BadRequest (pg_message err)), db')
           else if startsWith (pg_message err) ''AFTER not found''
           then (case afterId of
                   Some a \<Rightarrow>
                     (Inl (BadRequest (''after '' @ [sq] @ eventIdToString a @ [sq]
                             @ '' not found in this ledger.'')), db')
                 | None \<Rightarrow>
                     (Inl (JsError ''TypeError: Cannot destructure property of undefined''), db'))
           else (Inl (PostgresError err), db'))
      | (Inl err, db') \<Rightarrow> (Inl err, db'))"

text \<open>
  \<open>executeSelector\<close> with the stream drained: \<open>None\<close> when the stream never ends, else the
  error the call raised or the position and the events of the stream.
\<close>

definition executeSelector ::
  "'db SourceSql \<Rightarrow> Ledger \<Rightarrow> Selector \<Rightarrow> string \<Rightarrow> 'db
     \<Rightarrow> ((error + SelectorResult) \<times> 'db) option"
where
  "executeSelector sql ledger selector queryText db =
     (let lim = (case limit selector of None \<Rightarrow> 0 | Some l \<Rightarrow> l)
      in case validateAfterInLedger (after selector) ledger of
           Inl err \<Rightarrow> Some (Inl err, db)
         | Inr _ \<Rightarrow>
             (case tryExecuteSelector sql ledger lim queryText (after selector) db of
                (Inl err, db') \<Rightarrow> Some (Inl err, db')
              | (Inr (pos, []), db') \<Rightarrow>
                  Some (Inr \<lparr> position = pos,
                              eventStream = \<lparr> yielded = [], failure = None \<rparr> \<rparr>, db')
              | (Inr (pos, results), db') \<Rightarrow>
                  map_option (\<lambda>(res, db''). (Inr res, db''))
                    (continueSelector sql queryText pos lim results db')))"

definition allEvents ::
  "'db SourceSql \<Rightarrow> Ledger \<Rightarrow> Selector \<Rightarrow> 'db \<Rightarrow> ((error + SelectorResult) \<times> 'db) option"
where
  "allEvents sql ledger selector db = executeSelector sql ledger selector ''true'' db"

definition runFilter ::
  "'db SourceSql \<Rightarrow> Ledger \<Rightarrow> Selector \<Rightarrow> 'db \<Rightarrow> ((error + SelectorResult) \<times> 'db) option"
where
  "runFilter sql ledger selector db =
     (case filterSelectorToSql selector of
        Inl err \<Rightarrow> Some (Inl err, db)
      | Inr queryText \<Rightarrow> executeSelector sql ledger selector queryText db)"



section \<open>Notify: matcher\<close>

text \<open>
  The JSONPath engine is a parameter: \<open>engine queryText\<close> is \<open>sjp.compile(query)\<close>, \<open>None\<close>
  when the query does not compile (the call raises), else the compiled query's
  \<open>exists(input, {variables: vars})\<close>.
\<close>

type_synonym JsonpathEngine = "string \<Rightarrow> ((string \<times> json) list option \<Rightarrow> json \<Rightarrow> bool) option"


definition createAllMatcher :: "'a \<Rightarrow> bool" where
  "createAllMatcher = (\<lambda>_. True)"


definition createJsonpathMatcher :: "JsonpathEngine \<Rightarrow> JsonpathFilter \<Rightarrow> error + (json \<Rightarrow> bool)" where
  "createJsonpathMatcher engine f =
     (if query f = ''$'' then Inr createAllMatcher
      else (case engine (query f) of
              None \<Rightarrow> Inl (JsError (''cannot compile '' @ query f))
            | Some matcher \<Rightarrow> Inr (\<lambda>input. matcher (vars f) input)))"






section \<open>Notify: channels\<close>

text \<open>
  A channel's state is its map of filters, keyed by the encoded selector. The matcher of a
  filter is \<open>createMatcher\<close> of its selector and is not stored in the model; neither are
  the open event streams.
\<close>

record SubscriptionFilter =
  sub_id :: string
  sub_selector :: Selector

record Channel =
  channel_id :: string
  filters :: "(URIPart \<times> SubscriptionFilter) list"

definition findFilter ::
  "(URIPart \<times> SubscriptionFilter) list \<Rightarrow> string \<Rightarrow> (URIPart \<times> SubscriptionFilter) option"
where
  "findFilter fs subscriptionId = find (\<lambda>kf. sub_id (snd kf) = subscriptionId) fs"

text \<open>\<open>handleSubscribe\<close> of the channel; \<open>newId\<close> is the \<open>createId()\<close> it may ask for.\<close>

definition channelSubscribe :: "string \<Rightarrow> Channel \<Rightarrow> Selector \<Rightarrow> string \<times> Channel" where
  "channelSubscribe newId channel selectorIn =
     (let selector = selectorIn \<lparr> limit := None \<rparr>;
          key = encodeUnknownSelector selector
      in case map_of (filters channel) key of
           Some f \<Rightarrow> (sub_id f, channel)
         | None \<Rightarrow>
             (newId, channel \<lparr> filters := map_set key
                                  \<lparr> sub_id = newId, sub_selector = selector \<rparr> (filters channel) \<rparr>))"

definition channelUnsubscribe :: "Channel \<Rightarrow> string \<Rightarrow> Channel" where
  "channelUnsubscribe channel subscriptionId =
     (case findFilter (filters channel) subscriptionId of
        Some kf \<Rightarrow> channel \<lparr> filters := map_delete (fst kf) (filters channel) \<rparr>
      | None \<Rightarrow> channel)"

definition channelSubscriptions :: "Channel \<Rightarrow> string list" where
  "channelSubscriptions channel = map (\<lambda>kf. sub_id (snd kf)) (filters channel)"

definition channelSubscription :: "Channel \<Rightarrow> string \<Rightarrow> Selector option" where
  "channelSubscription channel subscriptionId =
     map_option (\<lambda>kf. sub_selector (snd kf)) (findFilter (filters channel) subscriptionId)"

text \<open>The channels of the process, keyed by ledger id and channel id.\<close>

type_synonym ChannelsMap = "(string \<times> Channel) list"

definition createKey :: "Ledger \<Rightarrow> string \<Rightarrow> string" where
  "createKey ledger channelId = bytesToHex (writeUInt32BE (ledger_id ledger)) @ ''|'' @ channelId"

definition getChannel :: "ChannelsMap \<Rightarrow> Ledger \<Rightarrow> string \<Rightarrow> error + Channel" where
  "getChannel channels ledger channelId =
     (case map_of channels (createKey ledger channelId) of
        Some channel \<Rightarrow> Inr channel
      | None \<Rightarrow> Inl (NotFound (''channel '' @ channelId @ '' does not exist.'')))"

definition handleChannelExists :: "ChannelsMap \<Rightarrow> Ledger \<Rightarrow> string \<Rightarrow> bool" where
  "handleChannelExists channels ledger channelId =
     (map_of channels (createKey ledger channelId) \<noteq> None)"

definition handleOpenChannel :: "string \<Rightarrow> ChannelsMap \<Rightarrow> Ledger \<Rightarrow> string \<times> ChannelsMap" where
  "handleOpenChannel newId channels ledger =
     (newId, map_set (createKey ledger newId) \<lparr> channel_id = newId, filters = [] \<rparr> channels)"

definition handleSubscribe ::
  "string \<Rightarrow> ChannelsMap \<Rightarrow> Ledger \<Rightarrow> string \<Rightarrow> Selector \<Rightarrow> (error + string) \<times> ChannelsMap"
where
  "handleSubscribe newId channels ledger channelId selector =
     (case getChannel channels ledger channelId of
        Inl err \<Rightarrow> (Inl err, channels)
      | Inr channel \<Rightarrow>
          (case channelSubscribe newId channel selector of
             (sid, channel') \<Rightarrow>
               (Inr sid, map_set (createKey ledger channelId) channel' channels)))"

definition handleUnsubscribe ::
  "ChannelsMap \<Rightarrow> Ledger \<Rightarrow> string \<Rightarrow> string \<Rightarrow> (error + unit) \<times> ChannelsMap"
where
  "handleUnsubscribe channels ledger channelId subscriptionId =
     (case getChannel channels ledger channelId of
        Inl err \<Rightarrow> (Inl err, channels)
      | Inr channel \<Rightarrow>
          (Inr (), map_set (createKey ledger channelId)
                     (channelUnsubscribe channel subscriptionId) channels))"

definition getSubscription ::
  "ChannelsMap \<Rightarrow> Ledger \<Rightarrow> string \<Rightarrow> string \<Rightarrow> error + Selector option"
where
  "getSubscription channels ledger channelId subscriptionId =
     (case getChannel channels ledger channelId of
        Inl err \<Rightarrow> Inl err
      | Inr channel \<Rightarrow> Inr (channelSubscription channel subscriptionId))"

text \<open>
  The two HTTP handlers of a subscription, by the status they reply with: an error raised
  in a handler is replied with its status code.
\<close>

definition initHandleGetSubscription ::
  "ChannelsMap \<Rightarrow> Ledger \<Rightarrow> string \<Rightarrow> string \<Rightarrow> error + nat \<times> Selector"
where
  "initHandleGetSubscription channels ledger channelId subscriptionId =
     (case getSubscription channels ledger channelId subscriptionId of
        Inl err \<Rightarrow> Inl err
      | Inr None \<Rightarrow>
          Inl (NotFound (''No subscription for channel '' @ channelId @ '', subscription ''
                 @ subscriptionId))
      | Inr (Some selector) \<Rightarrow> Inr (200, selector))"

definition initHandleDeleteSubscription ::
  "ChannelsMap \<Rightarrow> Ledger \<Rightarrow> string \<Rightarrow> string \<Rightarrow> (error + nat) \<times> ChannelsMap"
where
  "initHandleDeleteSubscription channels ledger channelId subscriptionId =
     (case handleUnsubscribe channels ledger channelId subscriptionId of
        (Inl err, channels') \<Rightarrow> (Inl err, channels')
      | (Inr _, channels') \<Rightarrow> (Inr 204, channels'))"

section \<open>Selector lookup\<close>

text \<open>
  \<open>String.prototype.trimStart\<close> removes the leading white space and line terminators of
  ECMAScript, here by their UTF-8 bytes: U+0009 to U+000D, U+0020, U+00A0, U+1680, U+2000
  to U+200A, U+2028, U+2029, U+202F, U+205F, U+3000 and U+FEFF.
\<close>

definition whiteSpaces :: "string list" where
  "whiteSpaces =
     [[CHR 0x09], [CHR 0x0A], [CHR 0x0B], [CHR 0x0C], [CHR 0x0D], [CHR 0x20],
      [CHR 0xC2, CHR 0xA0], [CHR 0xE1, CHR 0x9A, CHR 0x80],
      [CHR 0xE2, CHR 0x80, CHR 0x80], [CHR 0xE2, CHR 0x80, CHR 0x81],
      [CHR 0xE2, CHR 0x80, CHR 0x82], [CHR 0xE2, CHR 0x80, CHR 0x83],
      [CHR 0xE2, CHR 0x80, CHR 0x84], [CHR 0xE2, CHR 0x80, CHR 0x85],
      [CHR 0xE2, CHR 0x80, CHR 0x86], [CHR 0xE2, CHR 0x80, CHR 0x87],
      [CHR 0xE2, CHR 0x80, CHR 0x88], [CHR 0xE2, CHR 0x80, CHR 0x89],
      [CHR 0xE2, CHR 0x80, CHR 0x8A], [CHR 0xE2, CHR 0x80, CHR 0xA8],
      [CHR 0xE2, CHR 0x80, CHR 0xA9], [CHR 0xE2, CHR 0x80, CHR 0xAF],
      [CHR 0xE2, CHR 0x81, CHR 0x9F], [CHR 0xE3, CHR 0x80, CHR 0x80],
      [CHR 0xEF, CHR 0xBB, CHR 0xBF]]"

function trimStart :: "string \<Rightarrow> string" where
  "trimStart s =
     (case find (\<lambda>w. startsWith s w) whiteSpaces of
        Some w \<Rightarrow> trimStart (drop (length w) s)
      | None \<Rightarrow> s)"
  by pat_completeness auto
termination
proof (relation "measure length")
  fix s w
  assume found: "find (\<lambda>w. startsWith s w) whiteSpaces = Some w"
  then have "w \<in> set whiteSpaces" and "startsWith s w"
    by (auto simp: find_Some_iff)
  then have "w \<noteq> []" and "take (length w) s = w"
    by (auto simp: whiteSpaces_def startsWith_def)
  then have "s \<noteq> []"
    by auto
  with \<open>w \<noteq> []\<close> show "(drop (length w) s, s) \<in> measure length"
    by simp
qed simp

declare trimStart.simps [simp del]

definition STRICT :: string where
  "STRICT = ''strict ''"

text \<open>\<open>Buffer.from(text, "hex")\<close> decodes pairs of hexadecimal digits up to the first pair
  that is not one.\<close>

definition hexValue :: "char \<Rightarrow> nat option" where
  "hexValue c =
     (let n = (of_char c :: nat)
      in if 48 \<le> n \<and> n \<le> 57 then Some (n - 48)
         else if 97 \<le> n \<and> n \<le> 102 then Some (n - 87)
         else if 65 \<le> n \<and> n \<le> 70 then Some (n - 55)
         else None)"

fun hexToBytes :: "string \<Rightarrow> byte list" where
  "hexToBytes (x # y # rest) =
     (case (hexValue x, hexValue y) of
        (Some hi, Some lo) \<Rightarrow> of_nat (16 * hi + lo) # hexToBytes rest
      | _ \<Rightarrow> [])"
| "hexToBytes _ = []"

definition maybeFromEventIdString :: "string option \<Rightarrow> error + EventID option" where
  "maybeFromEventIdString x =
     (case x of
        None \<Rightarrow> Inr None
      | Some text \<Rightarrow>
          if length text = 32
          then (case fromEventIdBytes (hexToBytes text) of
                  Inl err \<Rightarrow> Inl err
                | Inr i \<Rightarrow> Inr (Some i))
          else Inl (BadRequest (''Invalid 'eventId' value: '' @ text)))"

record SelectorFilterLookup =
  lk_entities :: "(string \<times> string list) list option"
  lk_meta :: "JsonpathFilter option"
  lk_events :: "(string \<times> JsonpathFilter) list option"
  lk_after :: "string option"
  lk_limit :: "int option"

definition strictMetaMessage :: string where
  "strictMetaMessage =
     [sq] @ ''strict'' @ [sq] @ '' keyword unsupported in Evently's SQL JSONPath meta filter''"

definition strictDataMessage :: "string \<Rightarrow> string" where
  "strictDataMessage event =
     ''events.'' @ event @ ''.query '' @ [sq] @ ''strict'' @ [sq]
       @ '' keyword unsupported in Evently's SQL JSONPath data filter''"

text \<open>
  \<open>sortObject(events)\<close> sorts the event names and, under each, the keys of the filter and of
  its \<open>vars\<close>.
\<close>

definition sortEvents :: "(string \<times> JsonpathFilter) list \<Rightarrow> (string \<times> JsonpathFilter) list" where
  "sortEvents evs =
     sortKeys (map (map_prod id (\<lambda>f. f \<lparr> vars := map_option sortObject (vars f) \<rparr>)) evs)"

definition lookupToSelector :: "SelectorFilterLookup \<Rightarrow> error + Selector" where
  "lookupToSelector lookup =
     (if (case lk_meta lookup of
            Some m \<Rightarrow> startsWith (trimStart (query m)) STRICT
          | None \<Rightarrow> False)
      then Inl (UnprocessableEntity strictMetaMessage)
      else (case maybeFromEventIdString (lk_after lookup) of
              Inl err \<Rightarrow> Inl err
            | Inr afterId \<Rightarrow>
                (let errors = (case lk_events lookup of
                                 Some evs \<Rightarrow>
                                   map (\<lambda>kv. strictDataMessage (fst kv))
                                     (filter (\<lambda>kv. startsWith (trimStart (query (snd kv))) STRICT) evs)
                               | None \<Rightarrow> []);
                     dat = map_option sortEvents (lk_events lookup)
                 in if errors \<noteq> []
                    then Inl (UnprocessableEntity (join [nl] errors))
                    else Inr \<lparr> after = afterId, limit = lk_limit lookup,
                               entities = lk_entities lookup, meta = lk_meta lookup,
                               events = dat \<rparr>)))"

chapter \<open>Properties\<close>

section \<open>Sample values\<close>

text \<open>Concrete inputs on which the theorems below are exercised.\<close>

definition sample_ledger :: Ledger where
  "sample_ledger = \<lparr> ledger_id = 0x3b9c0ad0, ledger_name = ''First ledger'',
      ledger_description = ''My first Evently Ledger.'',
      genesis = \<lparr> timestamp = 1, checksum = 7, ledgerId = 0x3b9c0ad0 \<rparr> \<rparr>"

definition sample_registry :: "EventType list" where
  "sample_registry = [\<lparr> et_event = ''order-placed'', et_entities = [''order''] \<rparr>,
                      \<lparr> et_event = ''x'', et_entities = [''e''] \<rparr>]"

definition sample_ids :: Cuids where
  "sample_ids = \<lparr> newAppendKey = ''ck0'', newRef = ''ck1'' \<rparr>"

definition order_placed :: AppendEvent where
  "order_placed = \<lparr> ae_event = ''order-placed'', ae_entities = [(''order'', [''o-1''])],
      ae_meta = None, ae_data = Some (JObj [(''total'', JNum 42)]), idempotencyKey = None \<rparr>"

definition order_shipped :: AppendEvent where
  "order_shipped = \<lparr> ae_event = ''order-shipped'', ae_entities = [(''order'', [''o-1''])],
      ae_meta = None, ae_data = None, idempotencyKey = None \<rparr>"

definition order_for_cart :: AppendEvent where
  "order_for_cart = \<lparr> ae_event = ''order-placed'',
      ae_entities = [(''order'', [''o-1'']), (''cart'', [''c-9''])],
      ae_meta = None, ae_data = None, idempotencyKey = None \<rparr>"

definition replay_input :: AppendEvent where
  "replay_input = \<lparr> ae_event = ''x'', ae_entities = [(''e'', [''1''])],
      ae_meta = None, ae_data = None, idempotencyKey = Some ''K'' \<rparr>"

definition order_selector :: Selector where
  "order_selector = \<lparr> after = None, limit = None, entities = Some [(''order'', [''o-1''])],
      meta = None, events = None \<rparr>"

text \<open>
  A database in memory, for running the store: its state is the list of the rows appended,
  newest last. \<open>append_event\<close> refuses an append key that is already stored with a
  violation of the constraint on the key, and \<open>find_with_append_key\<close> reads the row back.
\<close>

record MemoryRow =
  row_key :: string
  row_stored :: StoredEvent

definition memory_append ::
  "AppendEventPostgres \<Rightarrow> MemoryRow list \<Rightarrow> (error + string) \<times> MemoryRow list"
where
  "memory_append vals db =
     (if appendKey vals \<in> set (map row_key db)
      then (Inl (PostgresError \<lparr> pg_message = ''duplicate key value violates unique constraint'',
                                  pg_code = ''23505'',
                                  constraint_name = Some ''ledger_append_key_key'' \<rparr>), db)
      else (let ts = of_nat (length db) + 1
            in (Inr (toEventIdString ts 7 0x3b9c0ad0),
                db @ [\<lparr> row_key = appendKey vals,
                         row_stored = \<lparr> storedTimestamp = ts, storedChecksum = 7,
                                         storedEvent = ap_event vals,
                                         storedEntities = entitiesJson (ap_entities vals),
                                         storedMeta = ap_meta vals,
                                         storedData = ap_data vals \<rparr> \<rparr>])))"

definition memory_find ::
  "32 word \<Rightarrow> string \<Rightarrow> MemoryRow list \<Rightarrow> (error + StoredEvent list) \<times> MemoryRow list"
where
  "memory_find lid key db = (Inr (map row_stored (filter (\<lambda>r. row_key r = key) db)), db)"

definition memory_sql :: "(MemoryRow list) Sql" where
  "memory_sql = \<lparr> append_event = memory_append, find_with_append_key = memory_find \<rparr>"

definition replay_db :: "MemoryRow list" where
  "replay_db = [\<lparr> row_key = ''K'',
      row_stored = \<lparr> storedTimestamp = 1, storedChecksum = 7, storedEvent = ''x'',
                      storedEntities = JObj [(''e'', JArr [JStr ''1''])],
                      storedMeta = JNull, storedData = JNull \<rparr> \<rparr>]"

text \<open>
  A database for running the event source: a clock whose ledger always holds another row,
  one per microsecond. \<open>run_selector\<close> answers with the header row and the first batch,
  \<open>fetch_selected\<close> with as many rows as it was asked for.
\<close>

definition tick :: "64 word \<Rightarrow> EventRow" where
  "tick ts = \<lparr> row_timestamp = ts, row_checksum = 7, row_event = ''tick'',
      row_entities = [(''clock'', [''c-1''])], row_meta = JNull, row_data = JNull \<rparr>"

definition ticks :: "64 word \<Rightarrow> nat \<Rightarrow> EventRow list" where
  "ticks ts n = map (\<lambda>i. tick (ts + of_nat i)) [1..<Suc n]"

definition clock_sql :: "unit SourceSql" where
  "clock_sql =
     \<lparr> run_selector = (\<lambda>lid afterTs afterChk lim predicate batchSize db.
          (Inr (tick (afterTs + of_int (if lim = 0 then batchSize else lim))
                # ticks afterTs (nat (if lim = 0 then batchSize else min lim batchSize))), db)),
       fetch_selected = (\<lambda>lid afterTs lim predicate db. (Inr (ticks afterTs (nat lim)), db)),
       fetch_event_id = (\<lambda>lid predicate afterTs lim db. (Inr [], db)) \<rparr>"

definition limit150 :: Selector where
  "limit150 = \<lparr> after = None, limit = Some 150, entities = None, meta = None, events = None \<rparr>"



definition strict_lookup :: SelectorFilterLookup where
  "strict_lookup = \<lparr> lk_entities = None,
      lk_meta = Some \<lparr> query = ''  strict $.a'', vars = None \<rparr>,
      lk_events = None, lk_after = None, lk_limit = None \<rparr>"

definition strict_data_lookup :: SelectorFilterLookup where
  "strict_data_lookup = \<lparr> lk_entities = None, lk_meta = None,
      lk_events = Some [(''order-placed'', \<lparr> query = ''strict $.total'', vars = None \<rparr>)],
      lk_after = None, lk_limit = None \<rparr>"

definition strict_tab_lookup :: SelectorFilterLookup where
  "strict_tab_lookup = \<lparr> lk_entities = None,
      lk_meta = Some \<lparr> query = ''strict'' @ [CHR 0x09] @ ''$.a'', vars = None \<rparr>,
      lk_events = None, lk_after = None, lk_limit = None \<rparr>"

definition sample_channel :: Channel where
  "sample_channel =
     \<lparr> channel_id = ''ch1'',
       filters = [(encodeUnknownSelector order_selector,
                   \<lparr> sub_id = ''sub1'', sub_selector = order_selector \<rparr>)] \<rparr>"

definition sample_channels :: ChannelsMap where
  "sample_channels = [(createKey sample_ledger ''ch1'', sample_channel)]"








definition empty_key_selector :: Selector where
  "empty_key_selector = \<lparr> after = None, limit = None,
      entities = Some [(''order'', [[]])], meta = None, events = None \<rparr>"

definition sample_after :: EventID where
  "sample_after = \<lparr> timestamp = 1700000000000000, checksum = 7, ledgerId = 0x3b9c0ad0 \<rparr>"

definition user_selector :: Selector where
  "user_selector = \<lparr> after = Some sample_after, limit = Some 0,
      entities = Some [(''order'', [''o-2'', ''o-1'']), (''cart'', [''c-9''])],
      meta = Some \<lparr> query = ''$.user ? (@ == $u)'',
                      vars = Some [(''u'', JObj [(''b'', JNum 1), (''a'', JArr [JNum 2])]),
                                   (''t'', JNull)] \<rparr>,
      events = Some [(''order-placed'', \<lparr> query = ''$'', vars = Some [] \<rparr>),
                     (''cart-filled'', \<lparr> query = ''$.n'', vars = None \<rparr>)] \<rparr>"

definition user_selector_reordered :: Selector where
  "user_selector_reordered = \<lparr> after = Some sample_after, limit = Some 0,
      entities = Some [(''cart'', [''c-9'']), (''order'', [''o-2'', ''o-1''])],
      meta = Some \<lparr> query = ''$.user ? (@ == $u)'',
                      vars = Some [(''t'', JNull),
                                   (''u'', JObj [(''a'', JArr [JNum 2]), (''b'', JNum 1)])] \<rparr>,
      events = Some [(''cart-filled'', \<lparr> query = ''$.n'', vars = None \<rparr>),
                     (''order-placed'', \<lparr> query = ''$'', vars = Some [] \<rparr>)] \<rparr>"

definition user_selector_canonical :: Selector where
  "user_selector_canonical = \<lparr> after = Some sample_after, limit = None,
      entities = Some [(''cart'', [''c-9'']), (''order'', [''o-2'', ''o-1''])],
      meta = Some \<lparr> query = ''$.user ? (@ == $u)'',
                      vars = Some [(''t'', JNull),
                                   (''u'', JObj [(''a'', JArr [JNum 2]), (''b'', JNum 1)])] \<rparr>,
      events = Some [(''cart-filled'', \<lparr> query = ''$.n'', vars = None \<rparr>),
                     (''order-placed'', \<lparr> query = ''$'', vars = None \<rparr>)] \<rparr>"

section \<open>Predicates of the statements\<close>

text \<open>
  The registry allows an append when the event name is registered and every entity name on
  the event is listed in the entry of that event type.
\<close>

definition registryAllows :: "EventType list \<Rightarrow> AppendEvent \<Rightarrow> bool" where
  "registryAllows registry event =
     (case findEvent registry (ae_event event) of
        None \<Rightarrow> False
      | Some eventDef \<Rightarrow>
          list_all (\<lambda>name. name \<in> set (et_entities eventDef)) (map fst (ae_entities event)))"

definition isUnprocessable :: "error + 'a \<Rightarrow> bool" where
  "isUnprocessable r = (case r of Inl err \<Rightarrow> statusCode err = Some 422 | Inr _ \<Rightarrow> False)"

definition succeeded :: "error + AppendResult \<Rightarrow> bool" where
  "succeeded r = (case r of Inl _ \<Rightarrow> False | Inr res \<Rightarrow> status res = SUCCESS)"

text \<open>
  A query is strict for \<open>lookupToSelector\<close> when, after its leading white space, it starts
  with the keyword and one space.
\<close>

definition strictQuery :: "string \<Rightarrow> bool" where
  "strictQuery q = startsWith (trimStart q) STRICT"

definition metaIsStrict :: "SelectorFilterLookup \<Rightarrow> bool" where
  "metaIsStrict lookup = (case lk_meta lookup of Some m \<Rightarrow> strictQuery (query m) | None \<Rightarrow> False)"

definition someDataIsStrict :: "SelectorFilterLookup \<Rightarrow> bool" where
  "someDataIsStrict lookup =
     (case lk_events lookup of Some evs \<Rightarrow> list_ex (\<lambda>kv. strictQuery (query (snd kv))) evs | None \<Rightarrow> False)"

definition afterIsValid :: "SelectorFilterLookup \<Rightarrow> bool" where
  "afterIsValid lookup = (case maybeFromEventIdString (lk_after lookup) of Inl _ \<Rightarrow> False | Inr _ \<Rightarrow> True)"

text \<open>A channel holds a subscription id when one of its filters has it.\<close>

definition holds :: "Channel \<Rightarrow> string \<Rightarrow> bool" where
  "holds channel subscriptionId = (subscriptionId \<in> set (channelSubscriptions channel))"

definition isNotFound :: "error + 'a \<Rightarrow> bool" where
  "isNotFound r = (case r of Inl err \<Rightarrow> statusCode err = Some 404 | Inr _ \<Rightarrow> False)"


definition lastMarker :: "MarkerEvent list \<Rightarrow> string \<Rightarrow> MarkerEvent option" where
  "lastMarker history name =
     (case filter (\<lambda>e. data_event e = name) history of
        [] \<Rightarrow> None
      | m # ms \<Rightarrow> Some (last (m # ms)))"

definition registered :: "MarkerEvent list \<Rightarrow> string \<Rightarrow> EventType option" where
  "registered history name =
     (case lastMarker history name of
        None \<Rightarrow> None
      | Some m \<Rightarrow>
          if action m = EVENT_REGISTERED
          then Some \<lparr> et_event = name, et_entities = data_entities m \<rparr>
          else None)"









text \<open>
  The canonical form of a selector, in the words of the specification: the keys of
  \<open>entities\<close>, of the \<open>vars\<close> of a filter (at every depth) and of \<open>events\<close> in
  lexicographic order, without the containers that are empty and without a limit of zero.
  A selector is well formed for the codec when each entity has at least one key and no key
  is the empty string, no query is the empty string, and the limit is not negative.
\<close>

definition dropEmpty :: "'a list option \<Rightarrow> 'a list option" where
  "dropEmpty x = (case x of Some [] \<Rightarrow> None | _ \<Rightarrow> x)"

definition canonicalJsonpath :: "JsonpathFilter \<Rightarrow> JsonpathFilter" where
  "canonicalJsonpath f = \<lparr> query = query f, vars = dropEmpty (map_option sortObject (vars f)) \<rparr>"

definition canonicalize :: "Selector \<Rightarrow> Selector" where
  "canonicalize s =
     \<lparr> after = after s,
       limit = (case limit s of Some n \<Rightarrow> if n = 0 then None else Some n | None \<Rightarrow> None),
       entities = dropEmpty (map_option sortKeys (entities s)),
       meta = map_option canonicalJsonpath (meta s),
       events = dropEmpty (map_option (\<lambda>evs. sortKeys (map (map_prod id canonicalJsonpath) evs))
                             (events s)) \<rparr>"

definition wellFormed :: "Selector \<Rightarrow> bool" where
  "wellFormed s =
     ((case entities s of
         Some ents \<Rightarrow> list_all (\<lambda>kv. snd kv \<noteq> [] \<and> list_all (\<lambda>k. k \<noteq> []) (snd kv)) ents
       | None \<Rightarrow> True) \<and>
      (case meta s of Some f \<Rightarrow> query f \<noteq> [] | None \<Rightarrow> True) \<and>
      (case events s of Some evs \<Rightarrow> list_all (\<lambda>kv. query (snd kv) \<noteq> []) evs | None \<Rightarrow> True) \<and>
      (case limit s of Some n \<Rightarrow> 0 \<le> n | None \<Rightarrow> True))"

definition isBadRequest :: "error + 'a \<Rightarrow> bool" where
  "isBadRequest r = (case r of Inl err \<Rightarrow> statusCode err = Some 400 | Inr _ \<Rightarrow> False)"

text \<open>
  Two selectors that differ only in the order of keys: the same \<open>after\<close> and \<open>limit\<close>, and
  \<open>entities\<close>, \<open>events\<close> and the \<open>vars\<close> of each filter with the same keys and, under each
  key, the same value (for a value of \<open>vars\<close>: equal by \<open>isEqual\<close>, which ignores the order
  of keys at every depth). Objects have each key once.
\<close>

primrec distinctJson :: "json \<Rightarrow> bool" where
  "distinctJson JNull = True"
| "distinctJson (JBool b) = True"
| "distinctJson (JNum n) = True"
| "distinctJson (JStr s) = True"
| "distinctJson (JArr xs) = list_all (\<lambda>b. b) (map distinctJson xs)"
| "distinctJson (JObj kvs) =
     (distinct (map fst kvs) \<and> list_all snd (map (map_prod id distinctJson) kvs))"

definition sameObject :: "('a \<Rightarrow> 'a \<Rightarrow> bool) \<Rightarrow> (string \<times> 'a) list \<Rightarrow> (string \<times> 'a) list \<Rightarrow> bool" where
  "sameObject R xs ys =
     (distinct (map fst xs) \<and> distinct (map fst ys) \<and> length xs = length ys \<and>
      list_all (\<lambda>kv. case map_of ys (fst kv) of Some y \<Rightarrow> R (snd kv) y | None \<Rightarrow> False) xs)"

definition sameJson :: "json \<Rightarrow> json \<Rightarrow> bool" where
  "sameJson a b = (distinctJson a \<and> distinctJson b \<and> isEqual a b)"

definition sameFilter :: "JsonpathFilter \<Rightarrow> JsonpathFilter \<Rightarrow> bool" where
  "sameFilter f g = (query f = query g \<and> rel_option (sameObject sameJson) (vars f) (vars g))"

definition sameSelector :: "Selector \<Rightarrow> Selector \<Rightarrow> bool" where
  "sameSelector s t =
     (after s = after t \<and> limit s = limit t \<and>
      rel_option (sameObject (=)) (entities s) (entities t) \<and>
      rel_option sameFilter (meta s) (meta t) \<and>
      rel_option (sameObject sameFilter) (events s) (events t))"

chapter \<open>Verification\<close>

section \<open>Maps as lists of entries\<close>






lemma map_set_same: "map_of m k = Some v \<Longrightarrow> map_set k v m = m"
  by (induction m) (auto split: if_splits)

section \<open>Appends are validated against the registry\<close>

lemma validateEvent_fails:
  "\<not> registryAllows registry event \<Longrightarrow>
     \<exists>msg. validateEvent registry event = Inl (HttpError 422 msg)"
  by (auto simp: registryAllows_def validateEvent_def UnprocessableEntity_def Let_def
        list_all_iff filter_empty_conv split: option.splits)

lemma validateEvent_succeeds:
  "registryAllows registry event \<Longrightarrow> validateEvent registry event = Inr ()"
  by (auto simp: registryAllows_def validateEvent_def Let_def list_all_iff filter_empty_conv
        split: option.splits)

lemma appendEvent_rejected:
  assumes "\<not> registryAllows registry event"
  shows "\<exists>msg. appendEvent sql ids registry ledger event selectorSql afterId db
            = (Inl (HttpError 422 msg), db)"
  using validateEvent_fails[OF assms] by (auto simp: appendEvent_def)

lemma singleOrAny_total: "vs \<noteq> [] \<Longrightarrow> \<exists>q. singleOrAny column vs = Inr q"
  by (cases vs; cases "tl vs") auto

lemma generateEventsQuery_total: "\<exists>q. generateEventsQuery dataFilter = Inr q"
proof -
  let ?just = "map fst (filter (\<lambda>(event, f). query f = ''$'') dataFilter)"
  show ?thesis
  proof (cases "?just = []")
    case True
    then show ?thesis by (simp add: generateEventsQuery_def Let_def)
  next
    case False
    from singleOrAny_total[OF this] obtain q where "singleOrAny ''event'' ?just = Inr q" by blast
    with False show ?thesis by (simp add: generateEventsQuery_def Let_def)
  qed
qed

lemma unknownSelectorToSql_total: "\<exists>q. unknownSelectorToSql selector = Inr q"
proof -
  have "\<exists>q. filterSelectorToSql selector = Inr q"
  proof (cases "events selector")
    case None
    then show ?thesis by (simp add: filterSelectorToSql_def Let_def)
  next
    case (Some ds)
    show ?thesis
    proof (cases ds)
      case Nil
      with Some show ?thesis by (simp add: filterSelectorToSql_def Let_def)
    next
      case (Cons d ds')
      obtain q where "generateEventsQuery (d # ds') = Inr q"
        using generateEventsQuery_total by blast
      with Some Cons show ?thesis by (simp add: filterSelectorToSql_def Let_def)
    qed
  qed
  then show ?thesis by (auto simp: unknownSelectorToSql_def)
qed

lemma appendWithSelector_rejected:
  assumes "\<not> registryAllows registry event"
  shows "\<exists>msg. appendWithSelector sql ids registry ledger event selector db
            = (Inl (HttpError 422 msg), db)"
proof -
  obtain q where q: "unknownSelectorToSql selector = Inr q"
    using unknownSelectorToSql_total by blast
  from appendEvent_rejected[OF assms, of sql ids ledger q "after selector" db]
  show ?thesis by (simp add: appendWithSelector_def q)
qed

lemma appendFact_rejected:
  assumes "\<not> registryAllows registry event"
  shows "\<exists>msg. appendFact sql ids registry ledger event db = (Inl (HttpError 422 msg), db)"
  using appendEvent_rejected[OF assms] by (simp add: appendFact_def)

text \<open>
  Claim C7. A factual or an atomic append is answered with 422 Unprocessable when the event
  name is not registered or an entity name on the event is not listed for the event type;
  an append that succeeds was allowed by the registry.
\<close>

theorem append_requires_registration:
  "(\<not> registryAllows registry event \<longrightarrow>
      isUnprocessable (fst (appendFact sql ids registry ledger event db)) \<and>
      isUnprocessable (fst (appendWithSelector sql ids registry ledger event selector db))) \<and>
   (succeeded (fst (appendFact sql ids registry ledger event db)) \<or>
    succeeded (fst (appendWithSelector sql ids registry ledger event selector db))
      \<longrightarrow> registryAllows registry event)"
proof -
  have rejected: "isUnprocessable (fst (appendFact sql ids registry ledger event db)) \<and>
      isUnprocessable (fst (appendWithSelector sql ids registry ledger event selector db))"
    if "\<not> registryAllows registry event"
    using appendFact_rejected[OF that, of sql ids ledger db]
      appendWithSelector_rejected[OF that, of sql ids ledger selector db]
    by (auto simp: isUnprocessable_def)
  then have "\<not> succeeded (fst (appendFact sql ids registry ledger event db)) \<and>
      \<not> succeeded (fst (appendWithSelector sql ids registry ledger event selector db))"
    if "\<not> registryAllows registry event"
    using that by (auto simp: isUnprocessable_def succeeded_def split: sum.splits)
  with rejected show ?thesis by blast
qed

lemma sample_allows:
  "registryAllows sample_registry order_placed"
  "\<not> registryAllows sample_registry order_shipped"
  "\<not> registryAllows sample_registry order_for_cart"
  by (simp_all add: registryAllows_def sample_registry_def order_placed_def order_shipped_def
        order_for_cart_def findEvent_def)

theorem append_requires_registration_witness:
  "\<not> registryAllows sample_registry order_shipped \<and>
   isUnprocessable (fst (appendFact memory_sql sample_ids sample_registry sample_ledger order_shipped [])) \<and>
   \<not> registryAllows sample_registry order_for_cart \<and>
   isUnprocessable (fst (appendWithSelector memory_sql sample_ids sample_registry sample_ledger
                           order_for_cart order_selector [])) \<and>
   succeeded (fst (appendFact memory_sql sample_ids sample_registry sample_ledger order_placed [])) \<and>
   registryAllows sample_registry order_placed"
proof -
  have ok: "succeeded (fst (appendFact memory_sql sample_ids sample_registry sample_ledger order_placed []))"
    by (simp add: succeeded_def appendFact_def appendEvent_def validateEvent_succeeds sample_allows
          tryAppendResult_def memory_sql_def memory_append_def Let_def)
  show ?thesis
    using ok sample_allows
      append_requires_registration[of sample_registry order_shipped memory_sql sample_ids
        sample_ledger "[]" order_selector]
      append_requires_registration[of sample_registry order_for_cart memory_sql sample_ids
        sample_ledger "[]" order_selector]
      append_requires_registration[of sample_registry order_placed memory_sql sample_ids
        sample_ledger "[]" order_selector]
    by blast
qed

text \<open>
  Claim C10. When the registry validation fails, the append answers 422 and the state of
  the database is the one before the call, whatever \<open>append_event\<close> would have done with
  it: the procedure is not called.
\<close>

theorem rejected_append_issues_no_database_call:
  "\<not> registryAllows registry event \<Longrightarrow>
     (\<exists>msg. appendFact sql ids registry ledger event db = (Inl (HttpError 422 msg), db)) \<and>
     (\<exists>msg. appendWithSelector sql ids registry ledger event selector db
               = (Inl (HttpError 422 msg), db))"
  by (intro conjI appendFact_rejected appendWithSelector_rejected)

theorem rejected_append_issues_no_database_call_witness:
  "\<not> registryAllows sample_registry order_shipped \<and>
   snd (appendFact memory_sql sample_ids sample_registry sample_ledger order_shipped []) = [] \<and>
   snd (appendWithSelector memory_sql sample_ids sample_registry sample_ledger order_shipped
          order_selector []) = [] \<and>
   length (snd (appendFact memory_sql sample_ids sample_registry sample_ledger order_placed [])) = 1"
proof -
  have logged: "length (snd (appendFact memory_sql sample_ids sample_registry sample_ledger order_placed [])) = 1"
    by (simp add: appendFact_def appendEvent_def validateEvent_succeeds sample_allows
          tryAppendResult_def memory_sql_def memory_append_def Let_def)
  show ?thesis
    using logged sample_allows(2)
      rejected_append_issues_no_database_call[OF sample_allows(2), of memory_sql sample_ids
        sample_ledger "[]" order_selector]
    by auto
qed

section \<open>Idempotent replay\<close>

text \<open>
  A stored event is compared with the input as the request gave it. When the request has no
  \<open>meta\<close> or no \<open>data\<close>, the stored column (\<open>null\<close>, the default \<open>appendEvent\<close> wrote)
  is compared with \<open>undefined\<close>, and the replay is refused whatever the database holds.
\<close>

lemma maybeIdempotent_absent_field:
  assumes "ae_meta newEvent = None \<or> ae_data newEvent = None"
    and "find_with_append_key sql (ledger_id ledger)
           (case idempotencyKey newEvent of None \<Rightarrow> ''NO_IDEMPOTENCY_KEY'' | Some k \<Rightarrow> k) db
         = (Inr (stored # rest), db')"
  shows "\<exists>msg. maybeIdempotent sql ledger newEvent appendResult db
            = (Inl (HttpError 422 msg), db')"
  using assms
  by (auto simp: maybeIdempotent_def Let_def isEqualMaybe_def UnprocessableEntity_def)

text \<open>
  Claim C3, at the input \<open>{event: "x", entities: {"e": ["1"]}, idempotencyKey: "K"}\<close>
  appended twice to an empty ledger: the first append succeeds and stores the event, the
  second append of the same input is answered with 422 where the claim says SUCCESS with
  the id of the first.
\<close>

theorem idempotent_replay_without_meta_is_rejected:
  "appendFact memory_sql sample_ids sample_registry sample_ledger replay_input []
     = (Inr \<lparr> status = SUCCESS,
               ok = Some \<lparr> eventId = ''0000000000000001000000073b9c0ad0'',
                           ok_idempotencyKey = ''K'' \<rparr>,
               message = None, race_error = None \<rparr>, replay_db) \<and>
   appendFact memory_sql sample_ids sample_registry sample_ledger replay_input replay_db
     = (Inl (HttpError 422
          (''Event does not match the event originally appended with idempotencyKey: ''
             @ [sq] @ ''K'' @ [sq])), replay_db)"
  by code_simp

section \<open>Selector execution in batches\<close>

lemma length_ticks: "length (ticks ts n) = n"
  by (simp add: ticks_def)

lemma ticks_eq_Nil: "(ticks ts n = []) = (n = 0)"
  by (simp add: ticks_def)

lemma last_ticks: "0 < n \<Longrightarrow> row_timestamp (last (ticks ts n)) = ts + of_nat n"
  by (cases n) (simp_all add: ticks_def tick_def)

lemma last_ticks_checksum: "0 < n \<Longrightarrow> row_checksum (last (ticks ts n)) = 7"
  by (cases n) (simp_all add: ticks_def tick_def)

lemma ticks_append: "ticks ts n @ ticks (ts + of_nat n) m = ticks ts (n + m)"
proof -
  have "[1..<Suc (n + m)] = [1..<Suc n] @ map (\<lambda>i. n + i) [1..<Suc m]"
    by (induction m) (simp_all add: upt_rec[of 1 "Suc 0"])
  then show ?thesis
    by (simp add: ticks_def add.assoc comp_def)
qed

lemma selectLoop_clock_150:
  "selectLoop clock_sql lid q (Finite 150) ts () = Some (\<lparr> yielded = ticks ts 150, failure = None \<rparr>, ())"
  apply (subst selectLoop.simps)
  apply (simp add: fetchRows_def clock_sql_def EVENT_BATCH_SIZE_def ticks_eq_Nil length_ticks last_ticks)
  apply (subst selectLoop.simps)
  apply (simp add: fetchRows_def clock_sql_def EVENT_BATCH_SIZE_def ticks_eq_Nil length_ticks last_ticks)
  apply (subst selectLoop.simps)
  apply (simp add: ticks_append[of ts 100 50, simplified])
  done

lemma tryExecuteSelector_clock:
  "tryExecuteSelector clock_sql sample_ledger 150 q None ()
     = (Inr (\<lparr> timestamp = 150, checksum = 7, ledgerId = ledger_id sample_ledger \<rparr>, ticks 0 100), ())"
  by (simp add: tryExecuteSelector_def clock_sql_def EVENT_BATCH_SIZE_def tick_def)

lemma continueSelector_clock:
  "continueSelector clock_sql q \<lparr> timestamp = 150, checksum = 7, ledgerId = lid \<rparr> 150 (ticks 0 100) ()
     = Some (\<lparr> position = \<lparr> timestamp = 150, checksum = 7, ledgerId = lid \<rparr>,
               eventStream = \<lparr> yielded = map (eventRowToPersistedEvent lid) (ticks 0 250),
                               failure = None \<rparr> \<rparr>, ())"
proof -
  have "ticks 0 100 @ ticks 100 150 = ticks 0 250"
    using ticks_append[of 0 100 150] by simp
  then have "map (eventRowToPersistedEvent lid) (ticks 0 100 @ ticks 100 150)
               = map (eventRowToPersistedEvent lid) (ticks 0 250)"
    by simp
  then show ?thesis
    by (simp add: continueSelector_def Let_def EVENT_BATCH_SIZE_def length_ticks selectEvents_def
          last_ticks selectLoop_clock_150 del: map_append)
qed

text \<open>
  Claim C5, at a selector with \<open>limit = 150\<close> run against the clock: the first batch has
  100 rows, and the continuation is started with the whole limit of 150 where 50 remain.
  It requests 100 and then 50 rows, and the stream yields 250 events.
\<close>

theorem limit_150_yields_250:
  "allEvents clock_sql sample_ledger limit150 ()
     = Some (Inr \<lparr> position = \<lparr> timestamp = 150, checksum = 7, ledgerId = ledger_id sample_ledger \<rparr>,
                   eventStream = \<lparr> yielded = map (eventRowToPersistedEvent (ledger_id sample_ledger)) (ticks 0 250),
                                   failure = None \<rparr> \<rparr>, ()) \<and>
     length (ticks 0 250) = 250"
proof -
  obtain r rs where rs: "ticks 0 100 = r # rs"
    using ticks_eq_Nil[of 0 100] by (cases "ticks 0 100") auto
  have "executeSelector clock_sql sample_ledger limit150 ''true'' ()
          = map_option (\<lambda>(res, db''). (Inr res, db''))
              (continueSelector clock_sql ''true''
                 \<lparr> timestamp = 150, checksum = 7, ledgerId = ledger_id sample_ledger \<rparr> 150 (ticks 0 100) ())"
    by (simp add: executeSelector_def limit150_def validateAfterInLedger_def
          tryExecuteSelector_clock) (simp add: rs)
  then show ?thesis
    by (simp add: allEvents_def continueSelector_clock length_ticks)
qed

section \<open>The predicate of a plain selector\<close>




section \<open>The strict mode of JSONPath is refused\<close>

lemma trim1: "trimStart ''  strict $.a'' = ''strict $.a''"
  by code_simp

lemma trim2: "trimStart ''strict $.total'' = ''strict $.total''"
  by code_simp

text \<open>
  Claim C8 as stated fails: a lookup whose meta query starts with \<open>strict\<close> is refused
  with 422 Unprocessable Entity, not with 400.
\<close>

theorem strict_is_not_bad_request_counterexample:
  "metaIsStrict strict_lookup \<and>
   lookupToSelector strict_lookup = Inl (HttpError 422 strictMetaMessage) \<and>
   statusCode (HttpError 422 strictMetaMessage) \<noteq> Some 400"
  by (simp add: metaIsStrict_def strictQuery_def strict_lookup_def trim1 lookupToSelector_def
        UnprocessableEntity_def startsWith_def STRICT_def)

text \<open>
  The keyword is recognised with the space that follows it: after a tab the query passes.
\<close>

lemma strict_before_tab_passes:
  "lookupToSelector strict_tab_lookup
     = Inr \<lparr> after = None, limit = None, entities = None,
             meta = Some \<lparr> query = ''strict'' @ [CHR 0x09] @ ''$.a'', vars = None \<rparr>,
             events = None \<rparr>"
  by code_simp

text \<open>
  Claim C8, amended. A lookup is refused with 422 Unprocessable Entity when its meta query
  is strict, and when a per-event data query is strict and \<open>after\<close> is absent or a valid
  event id (an invalid \<open>after\<close> is refused first, with 400).
\<close>

theorem strict_is_unprocessable:
  "metaIsStrict lookup \<or> (afterIsValid lookup \<and> someDataIsStrict lookup) \<Longrightarrow>
     \<exists>msg. lookupToSelector lookup = Inl (HttpError 422 msg)"
  by (auto simp: metaIsStrict_def afterIsValid_def someDataIsStrict_def strictQuery_def
        lookupToSelector_def UnprocessableEntity_def Let_def list_ex_iff filter_empty_conv
        split: option.splits sum.splits)

theorem strict_is_unprocessable_witness:
  "metaIsStrict strict_lookup \<and> isUnprocessable (lookupToSelector strict_lookup) \<and>
   afterIsValid strict_data_lookup \<and> someDataIsStrict strict_data_lookup \<and>
   isUnprocessable (lookupToSelector strict_data_lookup)"
proof -
  have m: "metaIsStrict strict_lookup"
    by (simp add: metaIsStrict_def strictQuery_def strict_lookup_def trim1 startsWith_def STRICT_def)
  have d: "afterIsValid strict_data_lookup \<and> someDataIsStrict strict_data_lookup"
    by (simp add: afterIsValid_def someDataIsStrict_def strictQuery_def strict_data_lookup_def
          trim2 startsWith_def STRICT_def maybeFromEventIdString_def)
  show ?thesis
    using m d strict_is_unprocessable[of strict_lookup] strict_is_unprocessable[of strict_data_lookup]
    by (auto simp: isUnprocessable_def)
qed

section \<open>Unknown subscriptions\<close>

lemma findFilter_None: "\<not> holds channel sid \<Longrightarrow> findFilter (filters channel) sid = None"
  by (force simp: holds_def channelSubscriptions_def findFilter_def find_None_iff)

lemma channelUnsubscribe_unknown: "\<not> holds channel sid \<Longrightarrow> channelUnsubscribe channel sid = channel"
  by (simp add: channelUnsubscribe_def findFilter_None)

lemma sample_channel_found:
  "getChannel sample_channels sample_ledger ''ch1'' = Inr sample_channel"
  by (simp add: getChannel_def sample_channels_def)

lemma sample_channel_holds: "\<not> holds sample_channel ''sub2''"
  by (simp add: holds_def channelSubscriptions_def sample_channel_def)

text \<open>
  Claim C9 as stated fails: on a channel that exists, DELETE of a subscription id the
  channel does not hold replies 204 and changes nothing.
\<close>

theorem delete_unknown_subscription_counterexample:
  "getChannel sample_channels sample_ledger ''ch1'' = Inr sample_channel \<and>
   \<not> holds sample_channel ''sub2'' \<and>
   initHandleDeleteSubscription sample_channels sample_ledger ''ch1'' ''sub2''
     = (Inr 204, sample_channels)"
proof -
  have "channelUnsubscribe sample_channel ''sub2'' = sample_channel"
    by (simp add: channelUnsubscribe_def findFilter_def sample_channel_def)
  then have "initHandleDeleteSubscription sample_channels sample_ledger ''ch1'' ''sub2''
               = (Inr 204, sample_channels)"
    by (simp add: initHandleDeleteSubscription_def handleUnsubscribe_def sample_channel_found)
       (simp add: sample_channels_def)
  then show ?thesis
    using sample_channel_found sample_channel_holds by simp
qed

text \<open>
  Claim C9, amended. For a subscription id the channel does not hold, GET of the
  subscription fails with 404 and DELETE replies 204 and leaves the channels as they are;
  on a channel that does not exist both fail with 404.
\<close>

theorem unknown_subscription:
  "(getChannel channels ledger channelId = Inr channel \<and> \<not> holds channel subscriptionId \<longrightarrow>
      isNotFound (initHandleGetSubscription channels ledger channelId subscriptionId) \<and>
      initHandleDeleteSubscription channels ledger channelId subscriptionId = (Inr 204, channels)) \<and>
   (\<not> handleChannelExists channels ledger channelId \<longrightarrow>
      isNotFound (initHandleGetSubscription channels ledger channelId subscriptionId) \<and>
      isNotFound (fst (initHandleDeleteSubscription channels ledger channelId subscriptionId)) \<and>
      snd (initHandleDeleteSubscription channels ledger channelId subscriptionId) = channels)"
proof (intro conjI impI)
  assume a: "getChannel channels ledger channelId = Inr channel \<and> \<not> holds channel subscriptionId"
  then have look: "map_of channels (createKey ledger channelId) = Some channel"
    by (auto simp: getChannel_def split: option.splits)
  from a show "isNotFound (initHandleGetSubscription channels ledger channelId subscriptionId)"
    by (simp add: initHandleGetSubscription_def getSubscription_def channelSubscription_def
          findFilter_None isNotFound_def NotFound_def)
  from a look show "initHandleDeleteSubscription channels ledger channelId subscriptionId = (Inr 204, channels)"
    by (simp add: initHandleDeleteSubscription_def handleUnsubscribe_def
          channelUnsubscribe_unknown map_set_same)
next
  assume b: "\<not> handleChannelExists channels ledger channelId"
  then have g: "\<exists>msg. getChannel channels ledger channelId = Inl (HttpError 404 msg)"
    by (auto simp: handleChannelExists_def getChannel_def NotFound_def)
  then show "isNotFound (initHandleGetSubscription channels ledger channelId subscriptionId)"
    by (auto simp: initHandleGetSubscription_def getSubscription_def isNotFound_def)
  from g show "isNotFound (fst (initHandleDeleteSubscription channels ledger channelId subscriptionId))"
    by (auto simp: initHandleDeleteSubscription_def handleUnsubscribe_def isNotFound_def)
  from g show "snd (initHandleDeleteSubscription channels ledger channelId subscriptionId) = channels"
    by (auto simp: initHandleDeleteSubscription_def handleUnsubscribe_def)
qed

theorem unknown_subscription_witness:
  "getChannel sample_channels sample_ledger ''ch1'' = Inr sample_channel \<and>
   \<not> holds sample_channel ''sub2'' \<and>
   isNotFound (initHandleGetSubscription sample_channels sample_ledger ''ch1'' ''sub2'') \<and>
   initHandleDeleteSubscription sample_channels sample_ledger ''ch1'' ''sub2''
     = (Inr 204, sample_channels) \<and>
   \<not> handleChannelExists sample_channels sample_ledger ''ch9'' \<and>
   isNotFound (initHandleGetSubscription sample_channels sample_ledger ''ch9'' ''sub1'') \<and>
   isNotFound (fst (initHandleDeleteSubscription sample_channels sample_ledger ''ch9'' ''sub1''))"
proof -
  have missing: "\<not> handleChannelExists sample_channels sample_ledger ''ch9''"
    by (simp add: handleChannelExists_def sample_channels_def createKey_def)
  show ?thesis
    using sample_channel_found sample_channel_holds missing
      unknown_subscription[of sample_channels sample_ledger "''ch1''" sample_channel "''sub2''"]
      unknown_subscription[of sample_channels sample_ledger "''ch9''" sample_channel "''sub1''"]
    by blast
qed

section \<open>The registry is the fold of its markers\<close>







section \<open>The matcher of a selector\<close>



lemma createJsonpathMatcher_exists_query:
  "createJsonpathMatcher engine \<lparr> query = ''$'', vars = v \<rparr> = Inr createAllMatcher"
  by (simp add: createJsonpathMatcher_def)








section \<open>The selector codec\<close>

subsection \<open>Event ids and their sixteen bytes\<close>

lemma upt8: "[0..<8] = [0,1,2,3,4,5,6,7]"
  by (simp add: upt_rec)

lemma upt4: "[0..<4] = [0,1,2,3]"
  by (simp add: upt_rec)

lemma byte_step:
  "push_bit 8 (drop_bit (k + 8) w) OR ucast (ucast (drop_bit k w) :: byte) = drop_bit k (w :: 'a::len word)"
proof (rule bit_word_eqI)
  fix n
  assume n: "n < LENGTH('a)"
  show "bit (push_bit 8 (drop_bit (k + 8) w) OR ucast (ucast (drop_bit k w) :: byte)) n
          = bit (drop_bit k w) n"
  proof (cases "n < 8")
    case True
    with n show ?thesis
      by (auto simp: bit_simps)
  next
    case False
    then have "k + 8 + (n - 8) = k + n"
      by simp
    with False n show ?thesis
      by (auto simp: bit_simps ac_simps)
  qed
qed

lemma readBE_long: "readBE (longToBuffer w) = (w :: 64 word)"
proof -
  have top: "drop_bit 64 w = 0"
    by (rule bit_word_eqI) (simp add: bit_simps)
  have "readBE (longToBuffer w) = drop_bit 0 w"
    unfolding readBE_def longToBuffer_def upt8
    using byte_step[of 56 w] byte_step[of 48 w] byte_step[of 40 w] byte_step[of 32 w]
      byte_step[of 24 w] byte_step[of 16 w] byte_step[of 8 w] byte_step[of 0 w] top
    by simp
  then show ?thesis by simp
qed

lemma readBE_uint32: "readBE (writeUInt32BE w) = (w :: 32 word)"
proof -
  have top: "drop_bit 32 w = 0"
    by (rule bit_word_eqI) (simp add: bit_simps)
  have "readBE (writeUInt32BE w) = drop_bit 0 w"
    unfolding readBE_def writeUInt32BE_def upt4
    using byte_step[of 24 w] byte_step[of 16 w] byte_step[of 8 w] byte_step[of 0 w] top
    by simp
  then show ?thesis by simp
qed

lemma length_longToBuffer: "length (longToBuffer w) = 8"
  by (simp add: longToBuffer_def)

lemma length_writeUInt32BE: "length (writeUInt32BE w) = 4"
  by (simp add: writeUInt32BE_def)

lemma fromEventIdBytes_toEventIdBytes: "fromEventIdBytes (toEventIdBytes x) = Inr x"
  by (simp add: fromEventIdBytes_def toEventIdBytes_def eventIdPartsToBuffer_def
        length_longToBuffer length_writeUInt32BE readBE_long readBE_uint32)

subsection \<open>Decoding an encoded selector\<close>

lemma pickNonEmpty_dropEmpty: "pickNonEmpty x = dropEmpty x"
  by (auto simp: pickNonEmpty_def dropEmpty_def split: option.splits list.splits)

lemma pickLimit_canonical:
  "(case x of Some n \<Rightarrow> 0 \<le> n | None \<Rightarrow> True) \<Longrightarrow>
     pickLimit x = (case x of Some n \<Rightarrow> if n = 0 then None else Some n | None \<Rightarrow> None)"
  by (auto simp: pickLimit_def split: option.splits)

lemma limitSpec_pickLimit: "limitSpec (pickLimit x)"
  by (auto simp: limitSpec_def pickLimit_def split: option.splits)

lemma decodeAfter_encode:
  "decodeAfter (pickNonEmpty (map_option toEventIdBytes x)) = Inr x"
proof (cases x)
  case None
  then show ?thesis by (simp add: decodeAfter_def pickNonEmpty_def)
next
  case (Some i)
  have "length (toEventIdBytes i) = 16"
    by (simp add: toEventIdBytes_def eventIdPartsToBuffer_def length_longToBuffer
          length_writeUInt32BE)
  then obtain b bs where "toEventIdBytes i = b # bs"
    by (cases "toEventIdBytes i") auto
  with Some show ?thesis
    using fromEventIdBytes_toEventIdBytes[of i]
    by (simp add: decodeAfter_def pickNonEmpty_def)
qed

lemma insort_key_map_prod:
  "map (map_prod id g) (insort_key fst x xs) = insort_key fst (map_prod id g x) (map (map_prod id g) xs)"
  by (induction xs) auto

lemma sortKeys_map_prod:
  "map (map_prod id g) (sortKeys xs) = sortKeys (map (map_prod id g) xs)"
proof (induction xs)
  case Nil
  then show ?case by (simp add: sortKeys_def)
next
  case (Cons x xs)
  have "map (map_prod id g) (sortKeys (x # xs))
          = insort_key fst (map_prod id g x) (map (map_prod id g) (sortKeys xs))"
    by (simp only: sortKeys_def sort_key_simps insort_key_map_prod)
  also have "\<dots> = sortKeys (map (map_prod id g) (x # xs))"
    using Cons.IH[unfolded sortKeys_def] by (simp only: sortKeys_def sort_key_simps list.map)
  finally show ?case .
qed

lemma set_sortKeys: "set (sortKeys xs) = set xs"
  by (simp add: sortKeys_def)

lemma sortKeys_eq_Nil: "(sortKeys xs = []) = (xs = [])"
  by (metis set_sortKeys set_empty)

lemma decompress_compress:
  "query f \<noteq> [] \<Longrightarrow> compressedJsonpathToJsonpath (jsonpathToCompressedJsonpath f) = canonicalJsonpath f"
  by (cases "query f")
     (simp_all add: compressedJsonpathToJsonpath_def jsonpathToCompressedJsonpath_def
        canonicalJsonpath_def pickNonEmpty_dropEmpty Let_def dropEmpty_def)

lemma compress_spec:
  "query f \<noteq> [] \<Longrightarrow> compressedJsonpathSpec (jsonpathToCompressedJsonpath f)"
  by (cases "query f")
     (simp_all add: compressedJsonpathSpec_def jsonpathToCompressedJsonpath_def pickNonEmpty_def Let_def)

lemma compress_not_empty:
  "query f \<noteq> [] \<Longrightarrow> \<not> isEmptyJsonpath (jsonpathToCompressedJsonpath f)"
  using compress_spec[of f] by (simp add: compressedJsonpathSpec_def isEmptyJsonpath_def)

lemma encoded_meta:
  assumes "wellFormed s"
  shows "cm (encodeFilterSelector s) = map_option jsonpathToCompressedJsonpath (meta s)"
    and "map_option compressedJsonpathToJsonpath (cm (encodeFilterSelector s))
           = map_option canonicalJsonpath (meta s)"
    and "case cm (encodeFilterSelector s) of Some j \<Rightarrow> compressedJsonpathSpec j | None \<Rightarrow> True"
  using assms
  by (auto simp: wellFormed_def encodeFilterSelector_def toURIPart_def Let_def pickJsonpath_def
        compress_not_empty decompress_compress compress_spec split: option.splits)

lemma encoded_entities:
  assumes "wellFormed s"
  shows "ce (encodeFilterSelector s) = dropEmpty (map_option sortKeys (entities s))"
    and "case ce (encodeFilterSelector s) of
           Some es \<Rightarrow> list_all (\<lambda>kv. nonEmptyStringArraySpec (snd kv)) es
         | None \<Rightarrow> True"
proof -
  show "ce (encodeFilterSelector s) = dropEmpty (map_option sortKeys (entities s))"
    by (simp add: encodeFilterSelector_def toURIPart_def Let_def pickNonEmpty_dropEmpty
          sortEntities_def[abs_def] sortKeys_def[abs_def])
  show "case ce (encodeFilterSelector s) of
           Some es \<Rightarrow> list_all (\<lambda>kv. nonEmptyStringArraySpec (snd kv)) es
         | None \<Rightarrow> True"
  proof (cases "entities s")
    case None
    then show ?thesis
      by (simp add: encodeFilterSelector_def toURIPart_def Let_def pickNonEmpty_def)
  next
    case (Some ents)
    with assms have "list_all (\<lambda>kv. nonEmptyStringArraySpec (snd kv)) (sortKeys ents)"
      by (simp add: wellFormed_def nonEmptyStringArraySpec_def list_all_iff set_sortKeys)
    with Some show ?thesis
      by (auto simp: encodeFilterSelector_def toURIPart_def Let_def pickNonEmpty_dropEmpty
            dropEmpty_def sortEntities_def split: list.splits)
  qed
qed

lemma encoded_events:
  assumes "wellFormed s"
  shows "map_option compressedDataToEvents (cd (encodeFilterSelector s))
           = dropEmpty (map_option (\<lambda>evs. sortKeys (map (map_prod id canonicalJsonpath) evs))
                          (events s))"
    and "case cd (encodeFilterSelector s) of
           Some ds \<Rightarrow> list_all (\<lambda>kv. compressedJsonpathSpec (snd kv)) ds
         | None \<Rightarrow> True"
proof -
  have canon: "map (map_prod id compressedJsonpathToJsonpath)
                 (sortKeys (map (map_prod id jsonpathToCompressedJsonpath) evs))
               = sortKeys (map (map_prod id canonicalJsonpath) evs)"
    if "list_all (\<lambda>kv. query (snd kv) \<noteq> []) evs" for evs
  proof -
    have "map (map_prod id compressedJsonpathToJsonpath)
            (map (map_prod id jsonpathToCompressedJsonpath) evs)
          = map (map_prod id canonicalJsonpath) evs"
      using that by (induction evs) (auto simp: decompress_compress)
    then show ?thesis
      by (simp only: sortKeys_map_prod)
  qed
  have spec: "list_all (\<lambda>kv. compressedJsonpathSpec (snd kv))
                (sortKeys (map (map_prod id jsonpathToCompressedJsonpath) evs))"
    if "list_all (\<lambda>kv. query (snd kv) \<noteq> []) evs" for evs
    using that by (auto simp: list_all_iff set_sortKeys compress_spec)
  show "map_option compressedDataToEvents (cd (encodeFilterSelector s))
           = dropEmpty (map_option (\<lambda>evs. sortKeys (map (map_prod id canonicalJsonpath) evs))
                          (events s))"
  proof (cases "events s")
    case None
    then show ?thesis
      by (simp add: encodeFilterSelector_def toURIPart_def Let_def pickNonEmpty_def dropEmpty_def)
  next
    case (Some evs)
    with assms have q: "list_all (\<lambda>kv. query (snd kv) \<noteq> []) evs"
      by (simp add: wellFormed_def)
    show ?thesis
    proof (cases evs)
      case Nil
      with Some show ?thesis
        by (simp add: encodeFilterSelector_def toURIPart_def Let_def pickNonEmpty_def
              dropEmpty_def eventsToCompressedData_def sortKeys_def)
    next
      case (Cons ev evs')
      then have ne: "sortKeys (map (map_prod id jsonpathToCompressedJsonpath) evs) \<noteq> []"
        and ne': "sortKeys (map (map_prod id canonicalJsonpath) evs) \<noteq> []"
        by (simp_all add: sortKeys_eq_Nil)
      from ne have "cd (encodeFilterSelector s)
                      = Some (sortKeys (map (map_prod id jsonpathToCompressedJsonpath) evs))"
        using Some
        by (simp add: encodeFilterSelector_def toURIPart_def Let_def pickNonEmpty_dropEmpty
              dropEmpty_def eventsToCompressedData_def split: list.splits)
      with ne' show ?thesis
        using Some canon[OF q]
        by (simp add: compressedDataToEvents_def dropEmpty_def split: list.splits)
    qed
  qed
  show "case cd (encodeFilterSelector s) of
           Some ds \<Rightarrow> list_all (\<lambda>kv. compressedJsonpathSpec (snd kv)) ds
         | None \<Rightarrow> True"
  proof (cases "events s")
    case None
    then show ?thesis
      by (simp add: encodeFilterSelector_def toURIPart_def Let_def pickNonEmpty_def)
  next
    case (Some evs)
    with assms have q: "list_all (\<lambda>kv. query (snd kv) \<noteq> []) evs"
      by (simp add: wellFormed_def)
    from spec[OF q] Some show ?thesis
      by (auto simp: encodeFilterSelector_def toURIPart_def Let_def pickNonEmpty_def
            eventsToCompressedData_def split: list.splits)
  qed
qed

lemma encoded_after_limit:
  "decodeAfter (ca (encodeFilterSelector s)) = Inr (after s)"
  "cl (encodeFilterSelector s) = pickLimit (limit s)"
  by (simp_all add: encodeFilterSelector_def toURIPart_def Let_def decodeAfter_encode)

lemma decode_encode_filter:
  assumes "wellFormed s"
  shows "decodeSelector (encodeFilterSelector s) = Inr (canonicalize s)"
proof -
  let ?c = "encodeFilterSelector s"
  have lim: "pickLimit (limit s)
               = (case limit s of Some n \<Rightarrow> if n = 0 then None else Some n | None \<Rightarrow> None)"
    using assms by (intro pickLimit_canonical) (simp add: wellFormed_def)
  have spec: "compressedFilterSpec ?c"
    using encoded_entities(2)[OF assms] encoded_meta(3)[OF assms] encoded_events(2)[OF assms]
    by (simp add: compressedFilterSpec_def encoded_after_limit limitSpec_pickLimit)
  have canon: "canonicalize s =
      \<lparr> after = after s, limit = cl ?c, entities = ce ?c,
        meta = map_option compressedJsonpathToJsonpath (cm ?c),
        events = map_option compressedDataToEvents (cd ?c) \<rparr>"
    by (simp add: canonicalize_def encoded_entities(1)[OF assms] encoded_meta(2)[OF assms]
          encoded_events(1)[OF assms] encoded_after_limit lim)
  show ?thesis
  proof (cases "ce ?c \<noteq> None \<or> cm ?c \<noteq> None \<or> cd ?c \<noteq> None")
    case True
    then show ?thesis
      using spec
      by (simp add: decodeSelector_def fromURIPart_def compressedFilterToSelector_def
            verifyCompressed_def encoded_after_limit(1) canon)
  next
    case False
    then show ?thesis
      by (simp add: decodeSelector_def fromURIPart_def compressedSelectorToSelector_def
            verifyCompressed_def compressedSelectorSpec_def encoded_after_limit
            limitSpec_pickLimit canon)
  qed
qed

lemma decode_encode_plain:
  assumes "wellFormed s" and "\<not> isFilterSelector s"
  shows "decodeSelector (encodeSelector s) = Inr (canonicalize s)"
proof -
  have lim: "pickLimit (limit s)
               = (case limit s of Some n \<Rightarrow> if n = 0 then None else Some n | None \<Rightarrow> None)"
    using assms(1) by (intro pickLimit_canonical) (simp add: wellFormed_def)
  from assms(2) have none: "entities s = None" "meta s = None" "events s = None"
    by (simp_all add: isFilterSelector_def)
  have "decodeSelector (encodeSelector s)
          = Inr \<lparr> after = after s, limit = pickLimit (limit s),
                  entities = None, meta = None, events = None \<rparr>"
    by (simp add: decodeSelector_def fromURIPart_def encodeSelector_def toURIPart_def Let_def
          compressedSelectorToSelector_def verifyCompressed_def compressedSelectorSpec_def
          limitSpec_pickLimit decodeAfter_encode)
  then show ?thesis
    by (simp add: canonicalize_def none lim dropEmpty_def)
qed

lemma decode_encode:
  "wellFormed s \<Longrightarrow> decodeSelector (encodeUnknownSelector s) = Inr (canonicalize s)"
  by (simp add: encodeUnknownSelector_def decode_encode_filter decode_encode_plain)

subsection \<open>The order of keys\<close>

lemma sortKeys_unique:
  assumes "distinct (map fst xs)" and "distinct (map fst ys)" and "set xs = set ys"
  shows "sortKeys xs = sortKeys ys"
proof -
  from assms have dx: "distinct xs" and dy: "distinct ys"
    by (simp_all add: distinct_map)
  with assms(3) have "mset xs = mset (sort_key fst ys)"
    by (simp add: set_eq_iff_mset_eq_distinct)
  moreover from assms(1) have "inj_on fst (set xs)"
    by (simp add: distinct_map)
  ultimately show ?thesis
    unfolding sortKeys_def by (intro sort_key_inj_key_eq) simp_all
qed

lemma sameObject_sorted:
  assumes "sameObject R xs ys"
    and "\<And>x y. x \<in> snd ` set xs \<Longrightarrow> R x y \<Longrightarrow> g x = g y"
  shows "sortKeys (map (map_prod id g) xs) = sortKeys (map (map_prod id g) ys)"
proof -
  let ?xs = "map (map_prod id g) xs" and ?ys = "map (map_prod id g) ys"
  from assms(1) have dx: "distinct (map fst xs)" and dy: "distinct (map fst ys)"
    and len: "length xs = length ys"
    by (simp_all add: sameObject_def)
  have look: "\<exists>y. map_of ys k = Some y \<and> R x y" if "(k, x) \<in> set xs" for k x
  proof -
    from assms(1)
    have "\<forall>kv\<in>set xs. case map_of ys (fst kv) of Some y \<Rightarrow> R (snd kv) y | None \<Rightarrow> False"
      by (simp add: sameObject_def list_all_iff)
    from bspec[OF this that]
    have "case map_of ys k of Some y \<Rightarrow> R x y | None \<Rightarrow> False"
      by (simp cong: option.case_cong)
    then show ?thesis
      by (cases "map_of ys k") simp_all
  qed
  have keys: "map fst ?xs = map fst xs" "map fst ?ys = map fst ys"
    by simp_all
  have sub: "set ?xs \<subseteq> set ?ys"
  proof
    fix kv assume "kv \<in> set ?xs"
    then obtain k x where kx: "(k, x) \<in> set xs" and kv: "kv = (k, g x)"
      by auto
    from look[OF kx] obtain y where y: "map_of ys k = Some y" and r: "R x y"
      by blast
    from kx have "x \<in> snd ` set xs"
      by force
    from assms(2)[OF this r] have "g x = g y" .
    moreover from y have "(k, y) \<in> set ys"
      by (rule map_of_SomeD)
    ultimately show "kv \<in> set ?ys"
      using kv by force
  qed
  have dxs: "distinct ?xs" and dys: "distinct ?ys"
    using dx dy keys by (metis distinct_map)+
  have "card (set ?xs) = length ?xs" "card (set ?ys) = length ?ys"
    using distinct_card[OF dxs] distinct_card[OF dys] by blast+
  then have "card (set ?xs) = length xs" "card (set ?ys) = length ys"
    by (simp_all only: length_map)
  with len sub have "set ?xs = set ?ys"
    by (simp add: card_subset_eq)
  with dx dy show ?thesis
    by (intro sortKeys_unique) (simp_all only: keys)
qed

lemma distinctJson_value:
  "distinctJson (JObj kvs) \<Longrightarrow> (k, v) \<in> set kvs \<Longrightarrow> distinctJson v"
  by (force simp: list_all_iff)

lemma distinctJson_element:
  "distinctJson (JArr xs) \<Longrightarrow> x \<in> set xs \<Longrightarrow> distinctJson x"
  by (simp add: list_all_iff)

lemma isEqual_sorted:
  "distinctJson a \<Longrightarrow> distinctJson b \<Longrightarrow> isEqual a b \<Longrightarrow> sortUnknown a = sortUnknown b"
proof (induction a arbitrary: b)
  case (JArr xs)
  show ?case
  proof (cases b)
    case (JArr ys)
    with JArr.prems have len: "length xs = length ys"
      and eq: "\<And>xy. xy \<in> set (zip xs ys) \<Longrightarrow> isEqual (fst xy) (snd xy)"
      by (simp_all add: list_all_iff)
    have "sortUnknown (xs ! i) = sortUnknown (ys ! i)" if "i < length xs" for i
    proof -
      from that len have "(xs ! i, ys ! i) \<in> set (zip xs ys)"
        by (metis length_zip min.idem nth_mem nth_zip)
      from eq[OF this] have "isEqual (xs ! i) (ys ! i)"
        by simp
      moreover from that have "xs ! i \<in> set xs"
        by simp
      moreover from that len have "ys ! i \<in> set ys"
        by simp
      ultimately show ?thesis
        using JArr.IH JArr.prems(1,2) \<open>b = JArr ys\<close>
        by (metis distinctJson_element)
    qed
    with len have "map sortUnknown xs = map sortUnknown ys"
      by (simp add: list_eq_iff_nth_eq)
    with JArr show ?thesis
      by simp
  qed (use JArr.prems in simp_all)
next
  case (JObj kvs)
  show ?case
  proof (cases b)
    case b: (JObj kvs')
    let ?R = "\<lambda>x y. isEqual x y \<and> distinctJson y"
    have "list_all (\<lambda>kv. case map_of kvs' (fst kv) of Some y \<Rightarrow> ?R (snd kv) y | None \<Rightarrow> False) kvs"
      unfolding list_all_iff
    proof
      fix kv assume "kv \<in> set kvs"
      with JObj.prems(3) b
      have l: "case map_of kvs' (fst kv) of Some y \<Rightarrow> isEqual (snd kv) y | None \<Rightarrow> False"
        by (simp add: list_all_iff)
      show "case map_of kvs' (fst kv) of Some y \<Rightarrow> ?R (snd kv) y | None \<Rightarrow> False"
      proof (cases "map_of kvs' (fst kv)")
        case None
        with l show ?thesis by simp
      next
        case (Some y)
        then have "(fst kv, y) \<in> set kvs'"
          by (rule map_of_SomeD)
        with JObj.prems(2) b have "distinctJson y"
          by (metis distinctJson_value)
        with l Some show ?thesis by simp
      qed
    qed
    with JObj.prems b have same: "sameObject ?R kvs kvs'"
      by (simp add: sameObject_def)
    have "sortKeys (map (map_prod id sortUnknown) kvs) = sortKeys (map (map_prod id sortUnknown) kvs')"
    proof (rule sameObject_sorted[OF same])
      fix x y
      assume x: "x \<in> snd ` set kvs" and r: "?R x y"
      from x obtain k where kx: "(k, x) \<in> set kvs"
        by force
      with JObj.prems(1) have "distinctJson x"
        by (metis distinctJson_value)
      moreover from kx have "x \<in> Basic_BNFs.snds (k, x)"
        by simp
      ultimately show "sortUnknown x = sortUnknown y"
        using JObj.IH[OF kx] r by blast
    qed
    with b show ?thesis
      by simp
  qed (use JObj.prems in simp_all)
qed simp_all

lemma sameVars_sorted:
  "rel_option (sameObject sameJson) v w \<Longrightarrow> map_option sortObject v = map_option sortObject w"
proof (cases v; cases w)
  fix xs ys
  assume "rel_option (sameObject sameJson) v w" and "v = Some xs" and "w = Some ys"
  then have "sameObject sameJson xs ys"
    by simp
  then have "sortObject xs = sortObject ys"
    unfolding sortObject_def
    by (rule sameObject_sorted) (simp add: sameJson_def isEqual_sorted)
  with \<open>v = Some xs\<close> \<open>w = Some ys\<close> show ?thesis
    by simp
qed simp_all

lemma sameFilter_compressed:
  "sameFilter f g \<Longrightarrow> jsonpathToCompressedJsonpath f = jsonpathToCompressedJsonpath g"
  using sameVars_sorted[of "vars f" "vars g"]
  by (simp add: sameFilter_def jsonpathToCompressedJsonpath_def)

lemma sameEntities_sorted:
  "rel_option (sameObject (=)) v w \<Longrightarrow> map_option sortEntities v = map_option sortEntities w"
proof (cases v; cases w)
  fix xs ys :: "(string \<times> string list) list"
  assume "rel_option (sameObject (=)) v w" and "v = Some xs" and "w = Some ys"
  then have "sameObject (=) xs ys"
    by simp
  then have "sortKeys (map (map_prod id id) xs) = sortKeys (map (map_prod id id) ys)"
    by (rule sameObject_sorted) simp
  with \<open>v = Some xs\<close> \<open>w = Some ys\<close> show ?thesis
    by (simp add: sortEntities_def prod.map_id0)
qed simp_all

lemma sameEvents_compressed:
  "rel_option (sameObject sameFilter) v w \<Longrightarrow>
     map_option eventsToCompressedData v = map_option eventsToCompressedData w"
proof (cases v; cases w)
  fix xs ys
  assume "rel_option (sameObject sameFilter) v w" and "v = Some xs" and "w = Some ys"
  then have "sameObject sameFilter xs ys"
    by simp
  then have "eventsToCompressedData xs = eventsToCompressedData ys"
    unfolding eventsToCompressedData_def
    by (rule sameObject_sorted) (simp add: sameFilter_compressed)
  with \<open>v = Some xs\<close> \<open>w = Some ys\<close> show ?thesis
    by simp
qed simp_all

lemma rel_option_None: "rel_option R v w \<Longrightarrow> (v = None) = (w = None)"
  by (cases v; cases w) simp_all

lemma encode_same:
  assumes "sameSelector s t"
  shows "encodeUnknownSelector s = encodeUnknownSelector t"
proof -
  from assms have e: "map_option sortEntities (entities s) = map_option sortEntities (entities t)"
    and m: "map_option jsonpathToCompressedJsonpath (meta s)
              = map_option jsonpathToCompressedJsonpath (meta t)"
    and d: "map_option eventsToCompressedData (events s)
              = map_option eventsToCompressedData (events t)"
    and a: "after s = after t" and l: "limit s = limit t"
  proof -
    from assms show "map_option sortEntities (entities s) = map_option sortEntities (entities t)"
      by (simp add: sameSelector_def sameEntities_sorted)
    from assms have "rel_option sameFilter (meta s) (meta t)"
      by (simp add: sameSelector_def)
    then show "map_option jsonpathToCompressedJsonpath (meta s)
                 = map_option jsonpathToCompressedJsonpath (meta t)"
      by (cases "meta s"; cases "meta t") (simp_all add: sameFilter_compressed)
    from assms show "map_option eventsToCompressedData (events s)
                       = map_option eventsToCompressedData (events t)"
      by (simp add: sameSelector_def sameEvents_compressed)
    from assms show "after s = after t" and "limit s = limit t"
      by (simp_all add: sameSelector_def)
  qed
  from assms have "isFilterSelector s = isFilterSelector t"
    by (auto simp: sameSelector_def isFilterSelector_def dest: rel_option_None)
  then show ?thesis
    by (simp add: encodeUnknownSelector_def encodeFilterSelector_def encodeSelector_def e m d a l)
qed

subsection \<open>The round trip\<close>

text \<open>
  Claim C1 as stated fails: the selector \<open>{entities: {"order": [""]}}\<close> is encoded, and
  decoding the token is refused with 400 by the check of the compressed form, which wants
  every key to have a character.
\<close>

theorem decode_encode_counterexample:
  "isBadRequest (decodeSelector (encodeUnknownSelector empty_key_selector)) \<and>
   decodeSelector (encodeUnknownSelector empty_key_selector)
     \<noteq> Inr (canonicalize empty_key_selector)"
proof -
  have "decodeSelector (encodeUnknownSelector empty_key_selector)
          = Inl (BadRequest ''Validation failed'')"
    by code_simp
  then show ?thesis
    by (simp add: isBadRequest_def BadRequest_def)
qed

text \<open>
  Claim C1, amended. For every selector with at least one key for each entity, no empty
  key, no empty query and no negative limit, decoding the encoded selector returns its
  canonical form; and two selectors that differ only in the order of the keys of
  \<open>entities\<close>, \<open>events\<close> and \<open>vars\<close> have the same encoding.
\<close>

theorem decode_encode_is_canonical:
  "(wellFormed s \<longrightarrow> decodeSelector (encodeUnknownSelector s) = Inr (canonicalize s)) \<and>
   (sameSelector s t \<longrightarrow> encodeUnknownSelector s = encodeUnknownSelector t)"
  using decode_encode encode_same by blast

theorem decode_encode_is_canonical_witness:
  "wellFormed user_selector \<and>
   canonicalize user_selector = user_selector_canonical \<and>
   decodeSelector (encodeUnknownSelector user_selector) = Inr user_selector_canonical \<and>
   sameSelector user_selector user_selector_reordered \<and>
   encodeUnknownSelector user_selector = encodeUnknownSelector user_selector_reordered"
proof -
  have wf: "wellFormed user_selector"
    by (simp add: wellFormed_def user_selector_def)
  have canon: "canonicalize user_selector = user_selector_canonical"
    by code_simp
  have same: "sameSelector user_selector user_selector_reordered"
    by code_simp
  show ?thesis
    using wf canon same decode_encode_is_canonical[of user_selector user_selector_reordered]
    by metis
qed

end
